theory Spec2Isabelle
  imports Complex_Main "HOL-Library.Monad_Syntax"
begin

section \<open>Vectors\<close>

text \<open>
  GLSL \<open>float\<close> and JavaScript \<open>number\<close> values are idealised as real numbers: rounding and
  overflow are outside the model, with two exceptions that are written out where they occur, the
  underflow of the transmittance of the raymarcher to zero and the numbers of the cascaded
  shadow maps that a division by zero leaves infinite or NaN.  \<open>vec2\<close>, \<open>vec3\<close> and \<open>vec4\<close>
  are tuples of reals, a \<open>mat4\<close> is given by its four rows.
\<close>

type_synonym vec2 = "real \<times> real"
type_synonym vec3 = "real \<times> real \<times> real"
type_synonym vec4 = "real \<times> real \<times> real \<times> real"
type_synonym mat4 = "vec4 \<times> vec4 \<times> vec4 \<times> vec4"

fun add3 :: "vec3 \<Rightarrow> vec3 \<Rightarrow> vec3" where
  "add3 (a, b, c) (x, y, z) = (a + x, b + y, c + z)"

fun scale3 :: "real \<Rightarrow> vec3 \<Rightarrow> vec3" where
  "scale3 k (x, y, z) = (k * x, k * y, k * z)"

fun mul3 :: "vec3 \<Rightarrow> vec3 \<Rightarrow> vec3" where
  "mul3 (a, b, c) (x, y, z) = (a * x, b * y, c * z)"

fun dot3 :: "vec3 \<Rightarrow> vec3 \<Rightarrow> real" where
  "dot3 (a, b, c) (x, y, z) = a * x + b * y + c * z"

definition length3 :: "vec3 \<Rightarrow> real" where
  "length3 v = sqrt (dot3 v v)"

fun dot4 :: "vec4 \<Rightarrow> vec4 \<Rightarrow> real" where
  "dot4 (a, b, c, d) (x, y, z, w) = a * x + b * y + c * z + d * w"

fun mulMV :: "mat4 \<Rightarrow> vec4 \<Rightarrow> vec4" where
  "mulMV (r0, r1, r2, r3) v = (dot4 r0 v, dot4 r1 v, dot4 r2 v, dot4 r3 v)"

fun divW :: "vec4 \<Rightarrow> vec4" where
  "divW (x, y, z, w) = (x / w, y / w, z / w, w / w)"

definition clamp :: "real \<Rightarrow> real \<Rightarrow> real \<Rightarrow> real" where
  "clamp x lo hi = min (max x lo) hi"

section \<open>The cloud shadow raymarcher\<close>

text \<open>
  The uniforms of the shadow fragment shader and the functions it includes from files that are
  not part of the sources (\<open>getStructureNormal\<close> and \<open>intersectStructuredPlanes\<close> of
  \<open>structuredSampling\<close>; \<open>getGlobeUv\<close>, \<open>sampleWeather\<close> and \<open>sampleShape\<close> of \<open>clouds\<close>;
  the depth read, which depends on the packing) are the fields of the environment.  The type
  \<open>'w\<close> stands for the \<open>WeatherSample\<close> structure, of which the shader reads \<open>density\<close>.
\<close>

record 'w march_env =
  maxIterations :: int
  minStepSize :: real
  maxStepSize :: real
  minDensity :: real
  minTransmittance :: real
  bottomRadius :: real
  ellipsoidCenter :: vec3
  vViewProjectionMatrix :: mat4
  viewMatrix :: mat4
  inverseProjectionMatrix :: mat4
  readDepth :: "vec2 \<Rightarrow> real"
  getStructureNormal :: "vec3 \<Rightarrow> real \<Rightarrow> vec3"
  intersectStructuredPlanes :: "vec3 \<Rightarrow> vec3 \<Rightarrow> vec3 \<Rightarrow> real \<Rightarrow> real \<times> real"
  getGlobeUv :: "vec3 \<Rightarrow> vec2"
  sampleWeather :: "vec2 \<Rightarrow> real \<Rightarrow> real \<Rightarrow> 'w"
  density :: "'w \<Rightarrow> vec4"
  sampleShape :: "'w \<Rightarrow> vec3 \<Rightarrow> real \<Rightarrow> real"

text \<open>The arguments of one call of \<open>marchToClouds\<close>.\<close>

record march_args =
  rayOrigin :: vec3
  rayDirection :: vec3
  maxRayDistance :: real
  jitter :: real
  mipLevel :: real

text \<open>The local variables of \<open>marchToClouds\<close> that the loop updates.\<close>

record march_state =
  rayDistance :: real
  extinctionSum :: real
  maxOpticalDepth :: real
  transmittanceIntegral :: real
  frontDepth :: real
  sampleCount :: int

datatype loop_exit = Termination | EarlyTermination | IterationsExhausted

text \<open>
  The occlusion test.  The divisions by \<open>w\<close> are divisions of reals; where a \<open>w\<close> is zero the
  shader computes with infinities, and the test may come out either way.  The loop uses the
  outcome only to decide whether a sample is accumulated, and what is proved about the loop
  holds for every outcome.
\<close>

definition intersectsSceneObjects :: "'w march_env \<Rightarrow> vec3 \<Rightarrow> bool" where
  "intersectsSceneObjects E rayPosition =
     (let position = add3 rayPosition (ellipsoidCenter E);
          (px, py, pz) = position;
          (cx, cy, cz, cw) = divW (mulMV (vViewProjectionMatrix E) (px, py, pz, 1))
      in if cx < -1 \<or> cx > 1 \<or> cy < -1 \<or> cy > 1 \<or> cz < 0 \<or> cz > 1 then False
         else
           let uv = (cx * 0.5 + 0.5, cy * 0.5 + 0.5);
               depth = readDepth E uv
           in if depth \<ge> 1 - 1 / 10000000 then False
              else
                let ndc = (cx, cy, depth * 2 - 1, 1);
                    (sx, sy, sz, sw) = divW (mulMV (inverseProjectionMatrix E) ndc);
                    (rx, ry, rz, rw) = divW (mulMV (viewMatrix E) (px, py, pz, 1))
                in rz < sz)"

fun anyGreaterThan :: "vec4 \<Rightarrow> real \<Rightarrow> bool" where
  "anyGreaterThan (x, y, z, w) m = (x > m \<or> y > m \<or> z > m \<or> w > m)"

text \<open>
  The transmittance is a product of factors \<open>exp (- density * stepSize)\<close>, and in binary32
  arithmetic such a product reaches zero: a result whose magnitude is at most \<open>2 ^ - 150\<close>, half
  the smallest positive binary32 number, is rounded to zero.  \<open>expf\<close> and \<open>mulf\<close> are the
  exponential and the product with this underflow; rounding is otherwise left out.
\<close>

definition underflow :: "real \<Rightarrow> real" where
  "underflow x = (if \<bar>x\<bar> \<le> 1 / 2 ^ 150 then 0 else x)"

definition expf :: "real \<Rightarrow> real" where
  "expf x = underflow (exp x)"

definition mulf :: "real \<Rightarrow> real \<Rightarrow> real" where
  "mulf a b = underflow (a * b)"

text \<open>
  The body of the loop between the two \<open>break\<close> tests: the rough density, the occlusion test,
  the detailed density and the accumulation.
\<close>

definition sampleStep :: "'w march_env \<Rightarrow> march_args \<Rightarrow> real \<Rightarrow> march_state \<Rightarrow> march_state" where
  "sampleStep E A stepSize s =
     (let position = add3 (rayOrigin A) (scale3 (rayDistance s) (rayDirection A));
          height = length3 position - bottomRadius E;
          uv = getGlobeUv E position;
          weather = sampleWeather E uv height (mipLevel A)
      in if anyGreaterThan (density E weather) (minDensity E)
            \<and> \<not> intersectsSceneObjects E position
         then
           let density = sampleShape E weather position (mipLevel A)
           in if density > minDensity E
              then
                let density = density * 5
                in s\<lparr> frontDepth := max (frontDepth s) (rayDistance s),
                      extinctionSum := extinctionSum s + density,
                      maxOpticalDepth := maxOpticalDepth s + density * stepSize,
                      transmittanceIntegral :=
                        mulf (transmittanceIntegral s) (expf (- density * stepSize)),
                      sampleCount := sampleCount s + 1 \<rparr>
              else s
         else s)"

text \<open>
  The \<open>for\<close> loop.  The result is the value of \<open>i\<close> when the loop is left, the way it is left
  and the variables at that moment.  The loop is a total function: \<open>maxIterations - i\<close> decreases
  with every iteration.
\<close>

function marchLoop ::
  "'w march_env \<Rightarrow> march_args \<Rightarrow> real \<Rightarrow> int \<Rightarrow> march_state \<Rightarrow> int \<times> loop_exit \<times> march_state" where
  "marchLoop E A stepSize i s =
     (if i < maxIterations E then
        if rayDistance s > maxRayDistance A then (i, Termination, s)
        else
          let s' = sampleStep E A stepSize s
          in if transmittanceIntegral s' \<le> minTransmittance E then (i, EarlyTermination, s')
             else marchLoop E A stepSize (i + 1) (s'\<lparr> rayDistance := rayDistance s' + stepSize \<rparr>)
      else (i, IterationsExhausted, s))"
  by pat_completeness auto
termination
  by (relation "measure (\<lambda>(E, A, stepSize, i, s). nat (maxIterations E - i))") auto

text \<open>
  The set-up of \<open>marchToClouds\<close>: the structured sampling planes give the first ray distance and
  the step size, and the jitter moves the first sample back.  The sampling period
  \<open>maxRayDistance / maxIterations\<close> is passed on to \<open>intersectStructuredPlanes\<close> and used nowhere
  else; when \<open>maxIterations\<close> is zero the loop takes no sample.
\<close>

definition marchSetup :: "'w march_env \<Rightarrow> march_args \<Rightarrow> real \<times> real" where
  "marchSetup E A =
     (let normal = getStructureNormal E (rayDirection A) (jitter A);
          (rayDistance, stepSize) =
             intersectStructuredPlanes E normal (rayOrigin A) (rayDirection A)
               (clamp (maxRayDistance A / real_of_int (maxIterations E)) (minStepSize E) (maxStepSize E))
      in (rayDistance - stepSize * jitter A, stepSize))"

definition initialState :: "real \<Rightarrow> march_state" where
  "initialState r0 =
     \<lparr> rayDistance = r0, extinctionSum = 0, maxOpticalDepth = 0, transmittanceIntegral = 1,
       frontDepth = 0, sampleCount = 0 \<rparr>"

definition marchRun :: "'w march_env \<Rightarrow> march_args \<Rightarrow> int \<times> loop_exit \<times> march_state" where
  "marchRun E A = (let (r0, stepSize) = marchSetup E A in marchLoop E A stepSize 0 (initialState r0))"

definition marchToClouds :: "'w march_env \<Rightarrow> march_args \<Rightarrow> vec4" where
  "marchToClouds E A =
     (let (i, e, s) = marchRun E A
      in if sampleCount s = 0 then (maxRayDistance A, 0, 0, 0)
         else
           let meanExtinction = extinctionSum s / real_of_int (sampleCount s)
           in (frontDepth s, meanExtinction, maxOpticalDepth s, 1))"

subsection \<open>The samples of a march, in closed form\<close>

text \<open>
  The \<open>j\<close>-th iteration of the loop samples at the ray distance \<open>r0 + j * stepSize\<close>.  A sample
  is accumulated when the rough density passes the threshold, the position is not inside a scene
  object and the detailed density passes the threshold; it then contributes five times the
  detailed density.
\<close>

definition sampleDistance :: "real \<Rightarrow> real \<Rightarrow> nat \<Rightarrow> real" where
  "sampleDistance r0 stepSize j = r0 + real j * stepSize"

definition samplePosition :: "march_args \<Rightarrow> real \<Rightarrow> vec3" where
  "samplePosition A r = add3 (rayOrigin A) (scale3 r (rayDirection A))"

definition sampleWeatherAt :: "'w march_env \<Rightarrow> march_args \<Rightarrow> real \<Rightarrow> 'w" where
  "sampleWeatherAt E A r =
     sampleWeather E (getGlobeUv E (samplePosition A r))
       (length3 (samplePosition A r) - bottomRadius E) (mipLevel A)"

definition detailedDensity :: "'w march_env \<Rightarrow> march_args \<Rightarrow> real \<Rightarrow> real" where
  "detailedDensity E A r = sampleShape E (sampleWeatherAt E A r) (samplePosition A r) (mipLevel A)"

definition accumulates :: "'w march_env \<Rightarrow> march_args \<Rightarrow> real \<Rightarrow> bool" where
  "accumulates E A r =
     (anyGreaterThan (density E (sampleWeatherAt E A r)) (minDensity E)
      \<and> \<not> intersectsSceneObjects E (samplePosition A r)
      \<and> detailedDensity E A r > minDensity E)"

definition scaledDensity :: "'w march_env \<Rightarrow> march_args \<Rightarrow> real \<Rightarrow> real" where
  "scaledDensity E A r = detailedDensity E A r * 5"

text \<open>The ray distances of the accumulated samples among the first \<open>n\<close> samples, in order.\<close>

definition accumulatedDistances ::
  "'w march_env \<Rightarrow> march_args \<Rightarrow> real \<Rightarrow> real \<Rightarrow> nat \<Rightarrow> real list" where
  "accumulatedDistances E A r0 stepSize n =
     filter (accumulates E A) (map (sampleDistance r0 stepSize) [0..<n])"

text \<open>
  The transmittance that the first \<open>k\<close> samples leave: every sample that is accumulated
  multiplies it by \<open>exp (- density * stepSize)\<close>, a sample that is skipped leaves it as it is.
\<close>

primrec transmittanceAfter ::
  "'w march_env \<Rightarrow> march_args \<Rightarrow> real \<Rightarrow> real \<Rightarrow> nat \<Rightarrow> real" where
  "transmittanceAfter E A r0 stepSize 0 = 1"
| "transmittanceAfter E A r0 stepSize (Suc k) =
     (if accumulates E A (sampleDistance r0 stepSize k)
      then mulf (transmittanceAfter E A r0 stepSize k)
             (expf (- scaledDensity E A (sampleDistance r0 stepSize k) * stepSize))
      else transmittanceAfter E A r0 stepSize k)"

text \<open>
  How many samples a run of the loop took (iterations that went past the first \<open>break\<close>), and how
  many iterations it began.
\<close>

fun samplesTaken :: "int \<times> loop_exit \<times> march_state \<Rightarrow> nat" where
  "samplesTaken (i, Termination, s) = nat i"
| "samplesTaken (i, EarlyTermination, s) = nat i + 1"
| "samplesTaken (i, IterationsExhausted, s) = nat i"

fun iterationsBegun :: "int \<times> loop_exit \<times> march_state \<Rightarrow> nat" where
  "iterationsBegun (i, Termination, s) = nat i + 1"
| "iterationsBegun (i, EarlyTermination, s) = nat i + 1"
| "iterationsBegun (i, IterationsExhausted, s) = nat i"

definition accumulatedSamples :: "'w march_env \<Rightarrow> march_args \<Rightarrow> real list" where
  "accumulatedSamples E A =
     (let (r0, stepSize) = marchSetup E A
      in accumulatedDistances E A r0 stepSize (samplesTaken (marchRun E A)))"

text \<open>The values of the variables after \<open>n\<close> samples.\<close>

definition stateAfter ::
  "'w march_env \<Rightarrow> march_args \<Rightarrow> real \<Rightarrow> real \<Rightarrow> nat \<Rightarrow> real \<Rightarrow> march_state" where
  "stateAfter E A r0 stepSize n r =
     (let ds = accumulatedDistances E A r0 stepSize n
      in \<lparr> rayDistance = r,
           extinctionSum = (\<Sum>d\<leftarrow>ds. scaledDensity E A d),
           maxOpticalDepth = (\<Sum>d\<leftarrow>ds. scaledDensity E A d * stepSize),
           transmittanceIntegral = transmittanceAfter E A r0 stepSize n,
           frontDepth = Max (set (0 # ds)),
           sampleCount = int (length ds) \<rparr>)"


text \<open>
  The states a run of the loop goes through: the variables at the start of every iteration that
  is begun, and the variables when the loop is left.
\<close>

function marchTrace ::
  "'w march_env \<Rightarrow> march_args \<Rightarrow> real \<Rightarrow> int \<Rightarrow> march_state \<Rightarrow> march_state list" where
  "marchTrace E A stepSize i s =
     (if i < maxIterations E then
        if rayDistance s > maxRayDistance A then [s]
        else
          let s' = sampleStep E A stepSize s
          in if transmittanceIntegral s' \<le> minTransmittance E then [s, s']
             else s # marchTrace E A stepSize (i + 1) (s'\<lparr> rayDistance := rayDistance s' + stepSize \<rparr>)
      else [s])"
  by pat_completeness auto
termination
  by (relation "measure (\<lambda>(E, A, stepSize, i, s). nat (maxIterations E - i))") auto

definition marchStates :: "'w march_env \<Rightarrow> march_args \<Rightarrow> march_state list" where
  "marchStates E A =
     (let (r0, stepSize) = marchSetup E A in marchTrace E A stepSize 0 (initialState r0))"

text \<open>
  What the proof of the loop carries along: the run started at iteration \<open>i\<close> in the state that
  \<open>i\<close> samples leave ends in the state that the samples taken leave, no iteration that was
  completed met a \<open>break\<close>, and the way the loop is left says why.
\<close>

definition loopFacts ::
  "'w march_env \<Rightarrow> march_args \<Rightarrow> real \<Rightarrow> real \<Rightarrow> int \<Rightarrow> int \<times> loop_exit \<times> march_state \<Rightarrow> bool" where
  "loopFacts E A r0 st i R =
     (case R of (i', e, s') \<Rightarrow>
        i \<le> i'
      \<and> s' = stateAfter E A r0 st (samplesTaken R) (sampleDistance r0 st (nat i'))
      \<and> (\<forall>j. nat i \<le> j \<and> j < nat i' \<longrightarrow>
            sampleDistance r0 st j \<le> maxRayDistance A
          \<and> minTransmittance E < transmittanceAfter E A r0 st (Suc j))
      \<and> (case e of
           Termination \<Rightarrow> i' < maxIterations E \<and> maxRayDistance A < sampleDistance r0 st (nat i')
         | EarlyTermination \<Rightarrow> i' < maxIterations E \<and> sampleDistance r0 st (nat i') \<le> maxRayDistance A
               \<and> transmittanceAfter E A r0 st (Suc (nat i')) \<le> minTransmittance E
         | IterationsExhausted \<Rightarrow> i' = max i (maxIterations E)))"

text \<open>A density field that is nowhere negative: the detailed density that \<open>sampleShape\<close> returns.\<close>

definition nonNegativeDensity :: "'w march_env \<Rightarrow> bool" where
  "nonNegativeDensity E = (\<forall>w p m. 0 \<le> sampleShape E w p m)"

subsection \<open>Concrete marches\<close>

text \<open>
  A uniform cloud: every sample passes both thresholds with detailed density 1, the depth buffer
  is empty, the sampling planes are orthogonal to the ray and go through its origin, so that the
  first plane is at distance 0 and the step is the sampling period.  With a jitter of one half
  the first sample is half a step behind the ray origin.
\<close>

definition identity4 :: mat4 where
  "identity4 = ((1, 0, 0, 0), (0, 1, 0, 0), (0, 0, 1, 0), (0, 0, 0, 1))"

definition uniformCloud :: "int \<Rightarrow> real \<Rightarrow> unit march_env" where
  "uniformCloud n minT =
     \<lparr> maxIterations = n, minStepSize = 1, maxStepSize = 1, minDensity = 0,
       minTransmittance = minT, bottomRadius = 0, ellipsoidCenter = (0, 0, 0),
       vViewProjectionMatrix = identity4, viewMatrix = identity4,
       inverseProjectionMatrix = identity4,
       readDepth = (\<lambda>uv. 1),
       getStructureNormal = (\<lambda>direction j. direction),
       intersectStructuredPlanes = (\<lambda>normal origin direction period. (0, period)),
       getGlobeUv = (\<lambda>position. (0, 0)),
       sampleWeather = (\<lambda>uv height mip. ()),
       density = (\<lambda>w. (1, 1, 1, 1)),
       sampleShape = (\<lambda>w position mip. 1) \<rparr>"

definition jitteredRay :: march_args where
  "jitteredRay =
     \<lparr> rayOrigin = (0, 0, 0), rayDirection = (0, 0, 1), maxRayDistance = 10, jitter = 1 / 2,
       mipLevel = 0 \<rparr>"

text \<open>
  The uniform cloud with the uniforms \<open>minStepSize\<close> and \<open>maxStepSize\<close> both set to \<open>st\<close>, so
  that the sampling period, and with it the step, is \<open>st\<close>; and a cloud that begins behind the
  plane \<open>z = 1\<close>: the detailed density is 0 in front of the plane and 1 behind it.
\<close>

definition steppedCloud :: "int \<Rightarrow> real \<Rightarrow> real \<Rightarrow> unit march_env" where
  "steppedCloud n minT st = (uniformCloud n minT)\<lparr> minStepSize := st, maxStepSize := st \<rparr>"

definition lateCloud :: "int \<Rightarrow> real \<Rightarrow> unit march_env" where
  "lateCloud n minT =
     (uniformCloud n minT)
       \<lparr> sampleShape := (\<lambda>w position mip. if 1 < snd (snd position) then 1 else 0) \<rparr>"

section \<open>The runtime functions of the atmosphere\<close>

text \<open>
  In the shader a division by zero, the square root of a negative number and a negative base of
  \<open>pow\<close> give an infinity, a NaN or an undefined value.  Here they are failures: the three
  operations return \<open>None\<close> there, and a function that meets one returns \<open>None\<close>.  A result
  \<open>Some v\<close> therefore says that no operation on the way was undefined.  A division by a literal
  constant other than zero is written as a plain division.
\<close>

definition fdiv :: "real \<Rightarrow> real \<Rightarrow> real option" where
  "fdiv a b = (if b = 0 then None else Some (a / b))"

definition fsqrt :: "real \<Rightarrow> real option" where
  "fsqrt a = (if a < 0 then None else Some (sqrt a))"

definition fpow :: "real \<Rightarrow> real \<Rightarrow> real option" where
  "fpow x y = (if x < 0 \<or> (x = 0 \<and> y \<le> 0) then None else Some (x powr y))"

fun div3 :: "vec3 \<Rightarrow> vec3 \<Rightarrow> vec3 option" where
  "div3 (a, b, c) (x, y, z) = do {
     p \<leftarrow> fdiv a x;
     q \<leftarrow> fdiv b y;
     r \<leftarrow> fdiv c z;
     Some (p, q, r)
   }"

fun divScalar3 :: "vec3 \<Rightarrow> real \<Rightarrow> vec3 option" where
  "divScalar3 (a, b, c) k = do {
     p \<leftarrow> fdiv a k;
     q \<leftarrow> fdiv b k;
     r \<leftarrow> fdiv c k;
     Some (p, q, r)
   }"

fun min3 :: "vec3 \<Rightarrow> vec3 \<Rightarrow> vec3" where
  "min3 (a, b, c) (x, y, z) = (min a x, min b y, min c z)"

fun rgb :: "vec4 \<Rightarrow> vec3" where
  "rgb (r, g, b, a) = (r, g, b)"

fun add4 :: "vec4 \<Rightarrow> vec4 \<Rightarrow> vec4" where
  "add4 (a, b, c, d) (x, y, z, w) = (a + x, b + y, c + z, d + w)"

fun scale4 :: "real \<Rightarrow> vec4 \<Rightarrow> vec4" where
  "scale4 k (x, y, z, w) = (k * x, k * y, k * z, k * w)"

text \<open>
  The uniforms and the texture sizes, which the sources of the functions leave to the program
  that includes them.  A sampler is the function from texture coordinates to texels.
\<close>

record atmosphere =
  u_bottom_radius :: real
  u_top_radius :: real
  u_mu_s_min :: real
  u_rayleigh_scattering :: vec3
  u_mie_scattering :: vec3
  u_mie_phase_function_g :: real
  u_max_rayleigh_shadow_length :: real
  u_scattering_texture :: "vec3 \<Rightarrow> vec4"
  u_single_mie_scattering_texture :: "vec3 \<Rightarrow> vec4"
  TRANSMITTANCE_TEXTURE_WIDTH :: int
  TRANSMITTANCE_TEXTURE_HEIGHT :: int
  SCATTERING_TEXTURE_R_SIZE :: int
  SCATTERING_TEXTURE_MU_SIZE :: int
  SCATTERING_TEXTURE_MU_S_SIZE :: int
  SCATTERING_TEXTURE_NU_SIZE :: int

definition ClampCosine :: "real \<Rightarrow> real" where
  "ClampCosine mu = clamp mu (- 1) 1"

definition ClampDistance :: "real \<Rightarrow> real" where
  "ClampDistance d = max d 0"

definition ClampRadius :: "atmosphere \<Rightarrow> real \<Rightarrow> real" where
  "ClampRadius P r = clamp r (u_bottom_radius P) (u_top_radius P)"

definition SafeSqrt :: "real \<Rightarrow> real" where
  "SafeSqrt a = sqrt (max a 0)"

definition DistanceToTopAtmosphereBoundary :: "atmosphere \<Rightarrow> real \<Rightarrow> real \<Rightarrow> real" where
  "DistanceToTopAtmosphereBoundary P r mu =
     (let discriminant = r * r * (mu * mu - 1) + u_top_radius P * u_top_radius P
      in ClampDistance (- r * mu + SafeSqrt discriminant))"

definition RayIntersectsGround :: "atmosphere \<Rightarrow> real \<Rightarrow> real \<Rightarrow> bool" where
  "RayIntersectsGround P r mu =
     (mu < 0 \<and> r * r * (mu * mu - 1) + u_bottom_radius P * u_bottom_radius P \<ge> 0)"

definition GetTextureCoordFromUnitRange :: "real \<Rightarrow> int \<Rightarrow> real option" where
  "GetTextureCoordFromUnitRange x texture_size = do {
     a \<leftarrow> fdiv 0.5 (real_of_int texture_size);
     b \<leftarrow> fdiv 1 (real_of_int texture_size);
     Some (a + x * (1 - b))
   }"

definition GetTransmittanceTextureUvFromRMu :: "atmosphere \<Rightarrow> real \<Rightarrow> real \<Rightarrow> vec2 option" where
  "GetTransmittanceTextureUvFromRMu P r mu = do {
     H \<leftarrow> fsqrt (u_top_radius P * u_top_radius P - u_bottom_radius P * u_bottom_radius P);
     let rho = SafeSqrt (r * r - u_bottom_radius P * u_bottom_radius P);
     let d = DistanceToTopAtmosphereBoundary P r mu;
     let d_min = u_top_radius P - r;
     let d_max = rho + H;
     x_mu \<leftarrow> fdiv (d - d_min) (d_max - d_min);
     x_r \<leftarrow> fdiv rho H;
     u \<leftarrow> GetTextureCoordFromUnitRange x_mu (TRANSMITTANCE_TEXTURE_WIDTH P);
     v \<leftarrow> GetTextureCoordFromUnitRange x_r (TRANSMITTANCE_TEXTURE_HEIGHT P);
     Some (u, v)
   }"

definition GetTransmittanceToTopAtmosphereBoundary ::
  "atmosphere \<Rightarrow> (vec2 \<Rightarrow> vec4) \<Rightarrow> real \<Rightarrow> real \<Rightarrow> vec3 option" where
  "GetTransmittanceToTopAtmosphereBoundary P transmittance_texture r mu = do {
     uv \<leftarrow> GetTransmittanceTextureUvFromRMu P r mu;
     Some (rgb (transmittance_texture uv))
   }"

definition GetTransmittance ::
  "atmosphere \<Rightarrow> (vec2 \<Rightarrow> vec4) \<Rightarrow> real \<Rightarrow> real \<Rightarrow> real \<Rightarrow> bool \<Rightarrow> vec3 option" where
  "GetTransmittance P transmittance_texture r mu d ray_r_mu_intersects_ground = do {
     s \<leftarrow> fsqrt (d * d + 2 * r * mu * d + r * r);
     let r_d = ClampRadius P s;
     q \<leftarrow> fdiv (r * mu + d) r_d;
     let mu_d = ClampCosine q;
     if ray_r_mu_intersects_ground then do {
       a \<leftarrow> GetTransmittanceToTopAtmosphereBoundary P transmittance_texture r_d (- mu_d);
       b \<leftarrow> GetTransmittanceToTopAtmosphereBoundary P transmittance_texture r (- mu);
       t \<leftarrow> div3 a b;
       Some (min3 t (1, 1, 1))
     } else do {
       a \<leftarrow> GetTransmittanceToTopAtmosphereBoundary P transmittance_texture r mu;
       b \<leftarrow> GetTransmittanceToTopAtmosphereBoundary P transmittance_texture r_d mu_d;
       t \<leftarrow> div3 a b;
       Some (min3 t (1, 1, 1))
     }
   }"

definition RayleighPhaseFunction :: "real \<Rightarrow> real" where
  "RayleighPhaseFunction nu = (let k = 3 / (16 * pi) in k * (1 + nu * nu))"

definition MiePhaseFunction :: "real \<Rightarrow> real \<Rightarrow> real option" where
  "MiePhaseFunction g nu = do {
     k \<leftarrow> fdiv (3 / (8 * pi) * (1 - g * g)) (2 + g * g);
     p \<leftarrow> fpow (1 + g * g - 2 * g * nu) 1.5;
     fdiv (k * (1 + nu * nu)) p
   }"

definition GetScatteringTextureUvwzFromRMuMuSNu ::
  "atmosphere \<Rightarrow> real \<Rightarrow> real \<Rightarrow> real \<Rightarrow> real \<Rightarrow> bool \<Rightarrow> vec4 option" where
  "GetScatteringTextureUvwzFromRMuMuSNu P r mu mu_s nu ray_r_mu_intersects_ground = do {
     H \<leftarrow> fsqrt (u_top_radius P * u_top_radius P - u_bottom_radius P * u_bottom_radius P);
     let rho = SafeSqrt (r * r - u_bottom_radius P * u_bottom_radius P);
     x_r \<leftarrow> fdiv rho H;
     u_r \<leftarrow> GetTextureCoordFromUnitRange x_r (SCATTERING_TEXTURE_R_SIZE P);
     let r_mu = r * mu;
     let discriminant = r_mu * r_mu - r * r + u_bottom_radius P * u_bottom_radius P;
     u_mu \<leftarrow>
       (if ray_r_mu_intersects_ground then do {
          let d = - r_mu - SafeSqrt discriminant;
          let d_min = r - u_bottom_radius P;
          let d_max = rho;
          x \<leftarrow> (if d_max = d_min then Some 0 else fdiv (d - d_min) (d_max - d_min));
          c \<leftarrow> GetTextureCoordFromUnitRange x (SCATTERING_TEXTURE_MU_SIZE P div 2);
          Some (0.5 - 0.5 * c)
        } else do {
          let d = - r_mu + SafeSqrt (discriminant + H * H);
          let d_min = u_top_radius P - r;
          let d_max = rho + H;
          x \<leftarrow> fdiv (d - d_min) (d_max - d_min);
          c \<leftarrow> GetTextureCoordFromUnitRange x (SCATTERING_TEXTURE_MU_SIZE P div 2);
          Some (0.5 + 0.5 * c)
        });
     let d = DistanceToTopAtmosphereBoundary P (u_bottom_radius P) mu_s;
     let d_min = u_top_radius P - u_bottom_radius P;
     let d_max = H;
     a \<leftarrow> fdiv (d - d_min) (d_max - d_min);
     let D = DistanceToTopAtmosphereBoundary P (u_bottom_radius P) (u_mu_s_min P);
     A \<leftarrow> fdiv (D - d_min) (d_max - d_min);
     q \<leftarrow> fdiv a A;
     x_mu_s \<leftarrow> fdiv (max (1 - q) 0) (1 + a);
     u_mu_s \<leftarrow> GetTextureCoordFromUnitRange x_mu_s (SCATTERING_TEXTURE_MU_S_SIZE P);
     let u_nu = (nu + 1) / 2;
     Some (u_nu, u_mu_s, u_mu, u_r)
   }"

definition GetExtrapolatedSingleMieScattering :: "atmosphere \<Rightarrow> vec4 \<Rightarrow> vec3 option" where
  "GetExtrapolatedSingleMieScattering P scattering =
     (case scattering of (sr, sg, sb, sa) \<Rightarrow>
        if sr < 1 / 100000 then Some (0, 0, 0)
        else do {
          t \<leftarrow> divScalar3 (scale3 sa (sr, sg, sb)) sr;
          k \<leftarrow> fdiv (fst (u_rayleigh_scattering P)) (fst (u_mie_scattering P));
          m \<leftarrow> div3 (u_mie_scattering P) (u_rayleigh_scattering P);
          Some (mul3 (scale3 k t) m)
        })"

definition GetCombinedScattering ::
  "atmosphere \<Rightarrow> (vec3 \<Rightarrow> vec4) \<Rightarrow> (vec3 \<Rightarrow> vec4) \<Rightarrow> real \<Rightarrow> real \<Rightarrow> real \<Rightarrow> real \<Rightarrow> bool
     \<Rightarrow> (vec3 \<times> vec3) option" where
  "GetCombinedScattering P scattering_texture single_mie_scattering_texture r mu mu_s nu
       ray_r_mu_intersects_ground = do {
     (x, y, z, w) \<leftarrow> GetScatteringTextureUvwzFromRMuMuSNu P r mu mu_s nu ray_r_mu_intersects_ground;
     let tex_coord_x = x * real_of_int (SCATTERING_TEXTURE_NU_SIZE P - 1);
     let tex_x = real_of_int \<lfloor>tex_coord_x\<rfloor>;
     let lerp = tex_coord_x - tex_x;
     u0 \<leftarrow> fdiv (tex_x + y) (real_of_int (SCATTERING_TEXTURE_NU_SIZE P));
     u1 \<leftarrow> fdiv (tex_x + 1 + y) (real_of_int (SCATTERING_TEXTURE_NU_SIZE P));
     let uvw0 = (u0, z, w);
     let uvw1 = (u1, z, w);
     let combined_scattering =
           add4 (scale4 (1 - lerp) (scattering_texture uvw0)) (scale4 lerp (scattering_texture uvw1));
     let scattering = rgb combined_scattering;
     single_mie_scattering \<leftarrow> GetExtrapolatedSingleMieScattering P combined_scattering;
     Some (scattering, single_mie_scattering)
   }"

text \<open>
  \<open>GetSkyRadiance\<close> returns the radiance and, through its \<open>out\<close> parameter, the transmittance.
  The first test moves a camera in front of the atmosphere to the top boundary; the second
  returns at once, which is the \<open>Inl\<close> case.
\<close>

definition GetSkyRadiance ::
  "atmosphere \<Rightarrow> (vec2 \<Rightarrow> vec4) \<Rightarrow> (vec3 \<Rightarrow> vec4) \<Rightarrow> (vec3 \<Rightarrow> vec4) \<Rightarrow> vec3 \<Rightarrow> vec3 \<Rightarrow> real \<Rightarrow> vec3
     \<Rightarrow> (vec3 \<times> vec3) option" where
  "GetSkyRadiance P transmittance_texture scattering_texture single_mie_scattering_texture
       camera view_ray shadow_length sun_direction =
     (let r = length3 camera;
          rmu = dot3 camera view_ray;
          distance_to_top_atmosphere_boundary =
            - rmu - SafeSqrt (rmu * rmu - r * r + u_top_radius P * u_top_radius P)
      in case (if distance_to_top_atmosphere_boundary > 0
               then Inr (add3 camera (scale3 distance_to_top_atmosphere_boundary view_ray),
                         u_top_radius P, rmu + distance_to_top_atmosphere_boundary)
               else if r > u_top_radius P then Inl ((0, 0, 0), (1, 1, 1))
               else Inr (camera, r, rmu)) of
           Inl result \<Rightarrow> Some result
         | Inr (camera, r, rmu) \<Rightarrow> do {
             mu \<leftarrow> fdiv rmu r;
             mu_s \<leftarrow> fdiv (dot3 camera sun_direction) r;
             let nu = dot3 view_ray sun_direction;
             let ray_r_mu_intersects_ground = RayIntersectsGround P r mu;
             transmittance \<leftarrow>
               (if ray_r_mu_intersects_ground then Some (0, 0, 0)
                else GetTransmittanceToTopAtmosphereBoundary P transmittance_texture r mu);
             (scattering, single_mie_scattering) \<leftarrow>
               (if shadow_length = 0 then
                  GetCombinedScattering P (u_scattering_texture P) (u_single_mie_scattering_texture P)
                    r mu mu_s nu ray_r_mu_intersects_ground
                else do {
                  let rayleigh_shadow_length = min shadow_length (u_max_rayleigh_shadow_length P);
                  let d = rayleigh_shadow_length;
                  s \<leftarrow> fsqrt (d * d + 2 * r * mu * d + r * r);
                  let r_p = ClampRadius P s;
                  mu_p \<leftarrow> fdiv (r * mu + d) r_p;
                  mu_s_p \<leftarrow> fdiv (r * mu_s + d * nu) r_p;
                  (scattering, single_mie_scattering) \<leftarrow>
                    GetCombinedScattering P scattering_texture single_mie_scattering_texture
                      r_p mu_p mu_s_p nu ray_r_mu_intersects_ground;
                  rayleigh_transmittance \<leftarrow>
                    GetTransmittance P transmittance_texture r mu rayleigh_shadow_length
                      ray_r_mu_intersects_ground;
                  let d = shadow_length;
                  s \<leftarrow> fsqrt (d * d + 2 * r * mu * d + r * r);
                  let r_p = ClampRadius P s;
                  mu_p \<leftarrow> fdiv (r * mu + d) r_p;
                  mu_s_p \<leftarrow> fdiv (r * mu_s + d * nu) r_p;
                  (unused, single_mie_scattering) \<leftarrow>
                    GetCombinedScattering P scattering_texture single_mie_scattering_texture
                      r_p mu_p mu_s_p nu ray_r_mu_intersects_ground;
                  mie_transmittance \<leftarrow>
                    GetTransmittance P transmittance_texture r mu shadow_length
                      ray_r_mu_intersects_ground;
                  Some (mul3 scattering rayleigh_transmittance,
                        mul3 single_mie_scattering mie_transmittance)
                });
             mie_phase \<leftarrow> MiePhaseFunction (u_mie_phase_function_g P) nu;
             Some (add3 (scale3 (RayleighPhaseFunction nu) scattering)
                        (scale3 mie_phase single_mie_scattering),
                   transmittance)
           })"

text \<open>
  The atmospheres for which the texture coordinates are meant: the ground is below the top of
  the atmosphere and above the centre, the smallest sun zenith cosine of the table is below 1,
  and the texture sizes are positive (the size of the \<open>mu\<close> axis is halved, so it is at least 2).
\<close>

definition validAtmosphere :: "atmosphere \<Rightarrow> bool" where
  "validAtmosphere P =
     (0 < u_bottom_radius P \<and> u_bottom_radius P < u_top_radius P \<and> u_mu_s_min P < 1
      \<and> 0 < TRANSMITTANCE_TEXTURE_WIDTH P \<and> 0 < TRANSMITTANCE_TEXTURE_HEIGHT P
      \<and> 0 < SCATTERING_TEXTURE_R_SIZE P \<and> 2 \<le> SCATTERING_TEXTURE_MU_SIZE P
      \<and> 0 < SCATTERING_TEXTURE_MU_S_SIZE P \<and> 0 < SCATTERING_TEXTURE_NU_SIZE P)"

text \<open>
  A small atmosphere with rational square roots: the ground at radius 3, the top at radius 5,
  textures of one colour.
\<close>

definition smallAtmosphere :: atmosphere where
  "smallAtmosphere =
     \<lparr> u_bottom_radius = 3, u_top_radius = 5, u_mu_s_min = 0,
       u_rayleigh_scattering = (1, 2, 4), u_mie_scattering = (1, 1, 1),
       u_mie_phase_function_g = 0, u_max_rayleigh_shadow_length = 1,
       u_scattering_texture = (\<lambda>uvw. (1, 1, 1, 1)),
       u_single_mie_scattering_texture = (\<lambda>uvw. (1, 1, 1, 1)),
       TRANSMITTANCE_TEXTURE_WIDTH = 256, TRANSMITTANCE_TEXTURE_HEIGHT = 64,
       SCATTERING_TEXTURE_R_SIZE = 32, SCATTERING_TEXTURE_MU_SIZE = 128,
       SCATTERING_TEXTURE_MU_S_SIZE = 32, SCATTERING_TEXTURE_NU_SIZE = 8 \<rparr>"

definition halfTransmittance :: "vec2 \<Rightarrow> vec4" where
  "halfTransmittance uv = (1 / 2, 1 / 2, 1 / 2, 1)"




section \<open>Cascaded shadow maps\<close>

text \<open>
  The classes of three.js that \<open>CascadedShadowMaps\<close> works on are records of the fields it
  reads and writes.  In JavaScript a division by zero gives an infinity or NaN, and so does
  what is computed from it.  A number that can come from such a division is a value of the type
  \<open>number\<close>: \<open>Some x\<close> is the finite number \<open>x\<close>, and \<open>None\<close> is a number that is not finite.
  A position is a \<open>vec3 option\<close> in the same way: \<open>None\<close> is a vector whose components are not
  finite.  The divisions are those of \<open>fdiv\<close>.  \<open>Math.round\<close> rounds to the nearest integer, a
  half upwards.
\<close>

type_synonym number = "real option"

datatype FrustumSplitMode = uniform | logarithmic | practical

datatype csm_error = InvariantFailed | TypeError

datatype bound = Finite real | Infinity

type_synonym corners = "vec3 \<times> vec3 \<times> vec3 \<times> vec3"

record FrustumCorners =
  nearCorners :: corners
  farCorners :: corners

record ShadowCamera =
  camLeft :: number
  camRight :: number
  camTop :: number
  camBottom :: number
  camNear :: number
  camFar :: number

text \<open>
  The shadow map of a light is a render target, \<open>null\<close> until the renderer allocates one; a
  render target is known by a number.
\<close>

record LightShadow =
  camera :: ShadowCamera
  mapSize :: vec2
  shadowMap :: "nat option"
  intensity :: real

record DirectionalLight =
  shadow :: LightShadow
  position :: "vec3 option"
  targetPosition :: "vec3 option"

text \<open>
  The class \<open>CascadedDirectionalLight\<close> is not in the sources, and they do not say whether its
  \<open>mainLight\<close>, whose shadow settings the getters of \<open>CascadedShadowMaps\<close> read, is one of its
  \<open>cascadedLights\<close>, whose shadow settings the setters write.  A record holds values and cannot
  say that two of its fields are the same object, so the record says it in a field of its own:
  when \<open>mainLightIndex\<close> is \<open>Some k\<close> and there is a \<open>k\<close>-th cascaded light, that light is the
  main light and the field \<open>mainLight\<close> is not read; otherwise the main light is an object of its
  own, the field \<open>mainLight\<close>.  The cascaded lights are objects of their own, one for every
  cascade.
\<close>

record CascadedDirectionalLight =
  mainLight :: DirectionalLight
  mainLightIndex :: "nat option"
  cascadedLights :: "DirectionalLight list"
  direction :: vec3

definition mainLightOf :: "CascadedDirectionalLight \<Rightarrow> DirectionalLight" where
  "mainLightOf dl =
     (case mainLightIndex dl of
        Some k \<Rightarrow> if k < length (cascadedLights dl) then cascadedLights dl ! k else mainLight dl
      | None \<Rightarrow> mainLight dl)"

record MainCamera =
  mainNear :: real
  mainFar :: real
  matrixWorld :: mat4

text \<open>
  The instance.  \<open>'ms\<close> is the class \<open>MaterialStates\<close>.  The last field is not a field of the
  class: it lists the render targets on which \<open>dispose\<close> has been called, the latest last.
\<close>

record 'ms CascadedShadowMaps =
  maxCascadeCount :: nat
  far :: real
  mode :: FrustumSplitMode
  lambda :: real
  margin :: real
  fade :: bool
  disableLastCascadeCutoff :: bool
  bias :: real
  normalBias :: real
  needsUpdateFrusta :: bool
  directionalLight :: CascadedDirectionalLight
  materialStates :: 'ms
  mainFrustum :: FrustumCorners
  cascadedFrusta :: "FrustumCorners list"
  splits :: "real list"
  cascades :: "(real \<times> bound) list"
  mainCamera :: MainCamera
  disposedMaps :: "nat list"

text \<open>
  What the class uses and the sources do not contain: the classes \<open>CascadedDirectionalLight\<close>,
  \<open>FrustumCorners\<close> and \<open>MaterialStates\<close> and the function \<open>splitFrustum\<close> of this
  repository, and \<open>Matrix4.lookAt\<close> and \<open>Matrix4.invert\<close> of three.js.  A method that changes
  its object is the function from the object before to the object after; \<open>setCount\<close> also
  returns the render targets on which it has called \<open>dispose\<close>.
\<close>

record 'ms collaborators =
  newCascadedDirectionalLight :: CascadedDirectionalLight
  newMaterialStates :: 'ms
  newFrustumCorners :: FrustumCorners
  setCount :: "nat \<Rightarrow> CascadedDirectionalLight \<Rightarrow> CascadedDirectionalLight \<times> nat list"
  splitFrustum :: "FrustumSplitMode \<Rightarrow> nat \<Rightarrow> real \<Rightarrow> real \<Rightarrow> real \<Rightarrow> real list \<Rightarrow> real list"
  setFromCamera :: "MainCamera \<Rightarrow> real \<Rightarrow> FrustumCorners \<Rightarrow> FrustumCorners"
  splitCorners :: "FrustumCorners \<Rightarrow> real list \<Rightarrow> FrustumCorners list \<Rightarrow> FrustumCorners list"
  materialStatesUpdate :: "'ms CascadedShadowMaps \<Rightarrow> 'ms"
  lookAt :: "vec3 \<Rightarrow> vec3 \<Rightarrow> vec3 \<Rightarrow> mat4"
  invert :: "mat4 \<Rightarrow> mat4"

text \<open>Modelled from the spec: \<open>CascadedDirectionalLight.setCount\<close>, which is not in the sources.
  The spec says that a change of the cascade count invalidates the existing shadow map
  allocations, which forces reallocation, and that changing the cascade count releases the prior
  shadow map allocations and never leaks one.  So after \<open>setCount\<close> no cascaded light has a
  shadow map, and the render targets on which \<open>dispose\<close> has been called are the shadow maps
  that were allocated.
\<close>

definition releasesShadowMaps :: "'ms collaborators \<Rightarrow> bool" where
  "releasesShadowMaps D =
     (\<forall>n dl. case setCount D n dl of (dl', disposed) \<Rightarrow>
         list_all (\<lambda>light. shadowMap (shadow light) = None) (cascadedLights dl')
       \<and> set disposed = set (List.map_filter (\<lambda>light. shadowMap (shadow light)) (cascadedLights dl)))"

subsection \<open>Vector3, Matrix4 and Box3\<close>

fun sub3 :: "vec3 \<Rightarrow> vec3 \<Rightarrow> vec3" where
  "sub3 (a, b, c) (x, y, z) = (a - x, b - y, c - z)"

definition distanceTo :: "vec3 \<Rightarrow> vec3 \<Rightarrow> real" where
  "distanceTo a b = length3 (sub3 a b)"

definition normalize3 :: "vec3 \<Rightarrow> vec3" where
  "normalize3 v = scale3 (1 / (if length3 v = 0 then 1 else length3 v)) v"

fun applyMatrix4 :: "mat4 \<Rightarrow> vec3 \<Rightarrow> vec3 option" where
  "applyMatrix4 (r0, r1, r2, r3) (x, y, z) = do {
     w \<leftarrow> fdiv 1 (dot4 r3 (x, y, z, 1));
     Some (dot4 r0 (x, y, z, 1) * w, dot4 r1 (x, y, z, 1) * w, dot4 r2 (x, y, z, 1) * w)
   }"

fun column4 :: "mat4 \<Rightarrow> nat \<Rightarrow> vec4" where
  "column4 ((a0, a1, a2, a3), (b0, b1, b2, b3), (c0, c1, c2, c3), (d0, d1, d2, d3)) k =
     (if k = 0 then (a0, b0, c0, d0)
      else if k = 1 then (a1, b1, c1, d1)
      else if k = 2 then (a2, b2, c2, d2)
      else (a3, b3, c3, d3))"

definition rowTimes :: "vec4 \<Rightarrow> mat4 \<Rightarrow> vec4" where
  "rowTimes r m = (dot4 r (column4 m 0), dot4 r (column4 m 1), dot4 r (column4 m 2), dot4 r (column4 m 3))"

fun multiplyMatrices :: "mat4 \<Rightarrow> mat4 \<Rightarrow> mat4" where
  "multiplyMatrices (r0, r1, r2, r3) m = (rowTimes r0 m, rowTimes r1 m, rowTimes r2 m, rowTimes r3 m)"

fun applyCorners :: "mat4 \<Rightarrow> corners \<Rightarrow> corners option" where
  "applyCorners m (a, b, c, d) = do {
     a' \<leftarrow> applyMatrix4 m a;
     b' \<leftarrow> applyMatrix4 m b;
     c' \<leftarrow> applyMatrix4 m c;
     d' \<leftarrow> applyMatrix4 m d;
     Some (a', b', c', d')
   }"

definition applyFrustum :: "mat4 \<Rightarrow> FrustumCorners \<Rightarrow> FrustumCorners option" where
  "applyFrustum m f = do {
     n' \<leftarrow> applyCorners m (nearCorners f);
     f' \<leftarrow> applyCorners m (farCorners f);
     Some \<lparr> nearCorners = n', farCorners = f' \<rparr>
   }"

datatype box3 = EmptyBox | Box vec3 vec3

fun vmin3 :: "vec3 \<Rightarrow> vec3 \<Rightarrow> vec3" where
  "vmin3 (a, b, c) (x, y, z) = (min a x, min b y, min c z)"

fun vmax3 :: "vec3 \<Rightarrow> vec3 \<Rightarrow> vec3" where
  "vmax3 (a, b, c) (x, y, z) = (max a x, max b y, max c z)"

fun expandByPoint :: "box3 \<Rightarrow> vec3 \<Rightarrow> box3" where
  "expandByPoint EmptyBox p = Box p p"
| "expandByPoint (Box lo hi) p = Box (vmin3 lo p) (vmax3 hi p)"

fun getCenter :: "box3 \<Rightarrow> vec3" where
  "getCenter EmptyBox = (0, 0, 0)"
| "getCenter (Box lo hi) = scale3 0.5 (add3 lo hi)"

fun boxMaxZ :: "box3 \<Rightarrow> real" where
  "boxMaxZ EmptyBox = 0"
| "boxMaxZ (Box lo (x, y, z)) = z"

fun frustumBox :: "FrustumCorners \<Rightarrow> box3" where
  "frustumBox f =
     (case (nearCorners f, farCorners f) of ((n0, n1, n2, n3), (f0, f1, f2, f3)) \<Rightarrow>
        foldl expandByPoint EmptyBox [n0, f0, n1, f1, n2, f2, n3, f3])"

definition jsRound :: "real \<Rightarrow> int" where
  "jsRound x = \<lfloor>x + 1 / 2\<rfloor>"

subsection \<open>The methods of CascadedShadowMaps\<close>

definition get_cascadeCount :: "'ms CascadedShadowMaps \<Rightarrow> nat" where
  "get_cascadeCount s = length (cascadedLights (directionalLight s))"

definition set_cascadeCount :: "'ms collaborators \<Rightarrow> nat \<Rightarrow> 'ms CascadedShadowMaps \<Rightarrow> 'ms CascadedShadowMaps" where
  "set_cascadeCount D v s =
     (if v \<noteq> get_cascadeCount s
      then
        let (light, disposed) = setCount D v (directionalLight s)
        in s\<lparr> directionalLight := light, needsUpdateFrusta := True,
              disposedMaps := disposedMaps s @ disposed \<rparr>
      else s)"

definition get_intensity :: "'ms CascadedShadowMaps \<Rightarrow> real" where
  "get_intensity s = intensity (shadow (mainLightOf (directionalLight s)))"

definition set_intensity :: "real \<Rightarrow> 'ms CascadedShadowMaps \<Rightarrow> 'ms CascadedShadowMaps" where
  "set_intensity v s =
     (if v \<noteq> get_intensity s
      then s\<lparr> directionalLight := (directionalLight s)
                \<lparr> cascadedLights :=
                    map (\<lambda>light. light\<lparr> shadow := (shadow light)\<lparr> intensity := v \<rparr> \<rparr>)
                      (cascadedLights (directionalLight s)) \<rparr> \<rparr>
      else s)"

definition get_mapSize :: "'ms CascadedShadowMaps \<Rightarrow> real" where
  "get_mapSize s = fst (mapSize (shadow (mainLightOf (directionalLight s))))"

text \<open>
  The loop of the \<open>mapSize\<close> setter over the lights, from the first: the lights after the loop
  and the render targets it disposed of.
\<close>

fun resizeShadows :: "real \<Rightarrow> DirectionalLight list \<Rightarrow> DirectionalLight list \<times> nat list" where
  "resizeShadows v [] = ([], [])"
| "resizeShadows v (light # lights) =
     (let sh = (shadow light)\<lparr> mapSize := (v, v) \<rparr>;
          (sh', disposed) = (case shadowMap sh of
                               Some target \<Rightarrow> (sh\<lparr> shadowMap := None \<rparr>, [target])
                             | None \<Rightarrow> (sh, []));
          (lights', disposed') = resizeShadows v lights
      in (light\<lparr> shadow := sh' \<rparr> # lights', disposed @ disposed'))"

definition set_mapSize :: "real \<Rightarrow> 'ms CascadedShadowMaps \<Rightarrow> 'ms CascadedShadowMaps" where
  "set_mapSize v s =
     (if v \<noteq> get_mapSize s
      then
        let (lights, disposed) = resizeShadows v (cascadedLights (directionalLight s))
        in s\<lparr> directionalLight := (directionalLight s)\<lparr> cascadedLights := lights \<rparr>,
              disposedMaps := disposedMaps s @ disposed \<rparr>
      else s)"

text \<open>The parameters of the constructor; \<open>None\<close> is a parameter that is not given.\<close>

record CascadedShadowMapsParams =
  p_cascadeCount :: "nat option"
  p_maxCascadeCount :: "nat option"
  p_far :: "real option"
  p_mode :: "FrustumSplitMode option"
  p_lambda :: "real option"
  p_margin :: "real option"
  p_fade :: "bool option"
  p_disableLastCascadeCutoff :: "bool option"
  p_intensity :: "real option"
  p_mapSize :: "real option"
  p_bias :: "real option"
  p_normalBias :: "real option"

definition orDefault :: "'a option \<Rightarrow> 'a \<Rightarrow> 'a" where
  "orDefault v d = (case v of Some x \<Rightarrow> x | None \<Rightarrow> d)"

definition newCascadedShadowMaps ::
  "'ms collaborators \<Rightarrow> MainCamera \<Rightarrow> CascadedShadowMapsParams \<Rightarrow> 'ms CascadedShadowMaps" where
  "newCascadedShadowMaps D cam params =
     (let cascadeCount = orDefault (p_cascadeCount params) 4;
          s0 = \<lparr> maxCascadeCount = orDefault (p_maxCascadeCount params) cascadeCount,
                 far = orDefault (p_far params) 100000,
                 mode = orDefault (p_mode params) practical,
                 lambda = orDefault (p_lambda params) 0.5,
                 margin = orDefault (p_margin params) 200,
                 fade = orDefault (p_fade params) True,
                 disableLastCascadeCutoff = orDefault (p_disableLastCascadeCutoff params) False,
                 bias = orDefault (p_bias params) 0,
                 normalBias = orDefault (p_normalBias params) 0,
                 needsUpdateFrusta = True,
                 directionalLight = newCascadedDirectionalLight D,
                 materialStates = newMaterialStates D,
                 mainFrustum = newFrustumCorners D,
                 cascadedFrusta = [],
                 splits = [],
                 cascades = [],
                 mainCamera = cam,
                 disposedMaps = [] \<rparr>;
          s1 = set_cascadeCount D cascadeCount s0;
          s2 = set_intensity (orDefault (p_intensity params) 1) s1
      in set_mapSize (orDefault (p_mapSize params) 2048) s2)"

definition splitAt :: "real list \<Rightarrow> int \<Rightarrow> real" where
  "splitAt xs i = (if 0 \<le> i \<and> nat i < length xs then xs ! nat i else 0)"

definition updateCascades :: "'ms collaborators \<Rightarrow> 'ms CascadedShadowMaps \<Rightarrow> csm_error + 'ms CascadedShadowMaps" where
  "updateCascades D s =
     (let splits' = splitFrustum D (mode s) (get_cascadeCount s) (mainNear (mainCamera s))
                      (min (mainFar (mainCamera s)) (far s)) (lambda s) (splits s);
          mainFrustum' = setFromCamera D (mainCamera s) (far s) (mainFrustum s);
          cascadedFrusta' = splitCorners D mainFrustum' splits' (cascadedFrusta s);
          cascades' = map (\<lambda>i. (splitAt splits' (int i - 1), Finite (splitAt splits' (int i))))
                        [0..<maxCascadeCount s];
          s' = s\<lparr> splits := splits', mainFrustum := mainFrustum', cascadedFrusta := cascadedFrusta' \<rparr>
      in if disableLastCascadeCutoff s then
           if maxCascadeCount s = 0 then Inl TypeError
           else Inr (s'\<lparr> cascades := cascades'[maxCascadeCount s - 1 :=
                                       (fst (cascades' ! (maxCascadeCount s - 1)), Infinity)] \<rparr>)
         else Inr (s'\<lparr> cascades := cascades' \<rparr>))"

text \<open>
  The radius of a frustum.  With \<open>fade\<close> the fade width is added; when the far and the near
  distance are equal the quotient is an infinity or NaN, its square times zero is NaN, and so is
  the radius.
\<close>

definition getFrustumRadius :: "'ms CascadedShadowMaps \<Rightarrow> FrustumCorners \<Rightarrow> number" where
  "getFrustumRadius s frustum =
     (case (nearCorners frustum, farCorners frustum) of ((n0, n1, n2, n3), (f0, f1, f2, f3)) \<Rightarrow>
        let length0 = max (distanceTo f0 f2) (distanceTo f0 n2)
        in if fade s then
             let near = mainNear (mainCamera s);
                 far' = min (mainFar (mainCamera s)) (far s)
             in do {
                  distance \<leftarrow> fdiv (snd (snd f0)) (far' - near);
                  Some ((length0 + 0.25 * (distance * distance) * (far' - near)) * 0.5)
                }
           else Some (length0 * 0.5))"

definition fitShadowCamera :: "'ms CascadedShadowMaps \<Rightarrow> FrustumCorners \<Rightarrow> DirectionalLight \<Rightarrow> DirectionalLight" where
  "fitShadowCamera s frustum light =
     (let radius = getFrustumRadius s frustum
      in light\<lparr> shadow := (shadow light)
                 \<lparr> camera := \<lparr> camLeft = map_option uminus radius, camRight = radius, camTop = radius,
                               camBottom = map_option uminus radius, camNear = Some 0,
                               camFar = map_option (\<lambda>r. r * 2 + margin s) radius \<rparr> \<rparr> \<rparr>)"

definition updateShadowBounds :: "'ms CascadedShadowMaps \<Rightarrow> csm_error + 'ms CascadedShadowMaps" where
  "updateShadowBounds s =
     (let frusta = cascadedFrusta s;
          lights = cascadedLights (directionalLight s)
      in if length frusta \<noteq> length lights then Inl InvariantFailed
         else Inr (s\<lparr> directionalLight := (directionalLight s)
                      \<lparr> cascadedLights := map (\<lambda>(frustum, light). fitShadowCamera s frustum light)
                                             (zip frusta lights) \<rparr> \<rparr>))"

definition updateFrusta :: "'ms collaborators \<Rightarrow> 'ms CascadedShadowMaps \<Rightarrow> csm_error + 'ms CascadedShadowMaps" where
  "updateFrusta D s =
     (case updateCascades D s of
        Inl e \<Rightarrow> Inl e
      | Inr s1 \<Rightarrow>
          (case updateShadowBounds s1 of
             Inl e \<Rightarrow> Inl e
           | Inr s2 \<Rightarrow> Inr (s2\<lparr> materialStates := materialStatesUpdate D s2 \<rparr>)))"

text \<open>
  The body of the loop of \<open>update\<close> for one cascade: the centre of the bounding box of the
  frustum in light space, moved to the far side in \<open>z\<close>, snapped to texels in \<open>x\<close> and \<open>y\<close>, and
  taken back to world space.  A texel size is not a finite number when \<open>mapSize\<close> is zero or a
  bound of the shadow camera is not finite, and it is zero when the two bounds are equal; in
  both cases \<open>Math.round (c / texel) * texel\<close> is NaN, and so are the three components of the
  position after the multiplication by the matrix.
\<close>

definition snapToTexel :: "real \<Rightarrow> real \<Rightarrow> number" where
  "snapToTexel c texel = do {
     q \<leftarrow> fdiv c texel;
     Some (real_of_int (jsRound q) * texel)
   }"

definition lightSpaceCenter :: "mat4 \<Rightarrow> real \<Rightarrow> FrustumCorners \<Rightarrow> vec3 option" where
  "lightSpaceCenter cameraToLightMatrix margin' frustum = do {
     f \<leftarrow> applyFrustum cameraToLightMatrix frustum;
     Some (let bbox = frustumBox f;
               (cx, cy, cz) = getCenter bbox
           in (cx, cy, boxMaxZ bbox + margin'))
   }"

definition snappedCenter :: "real \<Rightarrow> ShadowCamera \<Rightarrow> vec3 \<Rightarrow> vec3 option" where
  "snappedCenter mapSize' cam center =
     (case center of (cx, cy, cz) \<Rightarrow> do {
        cRight \<leftarrow> camRight cam;
        cLeft \<leftarrow> camLeft cam;
        cTop \<leftarrow> camTop cam;
        cBottom \<leftarrow> camBottom cam;
        texelW \<leftarrow> fdiv (cRight - cLeft) mapSize';
        texelH \<leftarrow> fdiv (cTop - cBottom) mapSize';
        x \<leftarrow> snapToTexel cx texelW;
        y \<leftarrow> snapToTexel cy texelH;
        Some (x, y, cz)
      })"

definition placeLight ::
  "mat4 \<Rightarrow> mat4 \<Rightarrow> vec3 \<Rightarrow> real \<Rightarrow> real \<Rightarrow> FrustumCorners \<Rightarrow> DirectionalLight \<Rightarrow> DirectionalLight" where
  "placeLight lightOrientationMatrix cameraToLightMatrix lightDirection margin' mapSize' frustum light =
     (let center = do {
            c \<leftarrow> lightSpaceCenter cameraToLightMatrix margin' frustum;
            c \<leftarrow> snappedCenter mapSize' (camera (shadow light)) c;
            applyMatrix4 lightOrientationMatrix c
          }
      in light\<lparr> position := center,
                targetPosition := map_option (\<lambda>c. add3 c lightDirection) center \<rparr>)"

fun placeLights ::
  "mat4 \<Rightarrow> mat4 \<Rightarrow> vec3 \<Rightarrow> real \<Rightarrow> real \<Rightarrow> FrustumCorners list \<Rightarrow> nat \<Rightarrow> DirectionalLight list
     \<Rightarrow> csm_error + DirectionalLight list" where
  "placeLights L M dir margin' mapSize' [] i lights = Inr lights"
| "placeLights L M dir margin' mapSize' (frustum # frusta) i lights =
     (if i < length lights
      then placeLights L M dir margin' mapSize' frusta (i + 1)
             (lights[i := placeLight L M dir margin' mapSize' frustum (lights ! i)])
      else Inl TypeError)"

definition DEFAULT_UP :: vec3 where
  "DEFAULT_UP = (0, 1, 0)"

definition lightOrientation :: "'ms collaborators \<Rightarrow> 'ms CascadedShadowMaps \<Rightarrow> mat4" where
  "lightOrientation D s = lookAt D (0, 0, 0) (normalize3 (direction (directionalLight s))) DEFAULT_UP"

definition cameraToLight :: "'ms collaborators \<Rightarrow> 'ms CascadedShadowMaps \<Rightarrow> mat4" where
  "cameraToLight D s = multiplyMatrices (invert D (lightOrientation D s)) (matrixWorld (mainCamera s))"

definition update :: "'ms collaborators \<Rightarrow> 'ms CascadedShadowMaps \<Rightarrow> csm_error + 'ms CascadedShadowMaps" where
  "update D s =
     (case (if needsUpdateFrusta s
            then (case updateFrusta D s of
                    Inl e \<Rightarrow> Inl e
                  | Inr s' \<Rightarrow> Inr (s'\<lparr> needsUpdateFrusta := False \<rparr>))
            else Inr s) of
        Inl e \<Rightarrow> Inl e
      | Inr s1 \<Rightarrow>
          (case placeLights (lightOrientation D s1) (cameraToLight D s1)
                  (normalize3 (direction (directionalLight s1))) (margin s1) (get_mapSize s1)
                  (cascadedFrusta s1) 0 (cascadedLights (directionalLight s1)) of
             Inl e \<Rightarrow> Inl e
           | Inr lights \<Rightarrow>
               Inr (s1\<lparr> directionalLight := (directionalLight s1)\<lparr> cascadedLights := lights \<rparr> \<rparr>)))"

subsection \<open>A concrete instance\<close>

text \<open>
  One cascade, a light that shines along the negative \<open>z\<close> axis, for which \<open>lookAt\<close> from the
  origin with the default up vector gives the identity matrix, whose inverse is the identity
  matrix.  The frustum of the main camera is a fixed truncated pyramid, and splitting it into
  one cascade returns it.  The main light is an object of its own.  The other collaborators
  are simple stand-ins: \<open>setCount\<close> disposes of every shadow map that is allocated and fills the
  list of lights with copies of the main light without a shadow map, \<open>splitFrustum\<close> splits
  uniformly.
\<close>

definition plainLight :: DirectionalLight where
  "plainLight =
     \<lparr> shadow = \<lparr> camera = \<lparr> camLeft = Some (- 5), camRight = Some 5, camTop = Some 5,
                               camBottom = Some (- 5), camNear = Some (1 / 2), camFar = Some 500 \<rparr>,
                  mapSize = (5, 5), shadowMap = None, intensity = 1 \<rparr>,
       position = Some (0, 1, 0), targetPosition = Some (0, 0, 0) \<rparr>"

definition pyramid :: FrustumCorners where
  "pyramid =
     \<lparr> nearCorners = ((- 1 / 2, - 1 / 2, - 1), (1 / 2, - 1 / 2, - 1), (1 / 2, 1 / 2, - 1), (- 1 / 2, 1 / 2, - 1)),
       farCorners = ((- 3 / 2, - 2, - 3), (3 / 2, - 2, - 3), (3 / 2, 2, - 3), (- 3 / 2, 2, - 3)) \<rparr>"

definition standIns :: "unit collaborators" where
  "standIns =
     \<lparr> newCascadedDirectionalLight =
         \<lparr> mainLight = plainLight, mainLightIndex = None, cascadedLights = [],
           direction = (0, 0, - 1) \<rparr>,
       newMaterialStates = (),
       newFrustumCorners = pyramid,
       setCount =
         (\<lambda>n dl. (dl\<lparr> cascadedLights :=
                         replicate n ((mainLight dl)\<lparr> shadow := (shadow (mainLight dl))\<lparr> shadowMap := None \<rparr> \<rparr>) \<rparr>,
                   List.map_filter (\<lambda>light. shadowMap (shadow light)) (cascadedLights dl))),
       splitFrustum = (\<lambda>mode' n near' far' lambda' old.
                         map (\<lambda>i. near' + (far' - near') * real (i + 1) / real n) [0..<n]),
       setFromCamera = (\<lambda>cam far' f. pyramid),
       splitCorners = (\<lambda>f splits' old. map (\<lambda>x. f) splits'),
       materialStatesUpdate = (\<lambda>s. ()),
       lookAt = (\<lambda>eye target up. identity4),
       invert = (\<lambda>m. m) \<rparr>"

definition translation4 :: "vec3 \<Rightarrow> mat4" where
  "translation4 t = (case t of (x, y, z) \<Rightarrow> ((1, 0, 0, x), (0, 1, 0, y), (0, 0, 1, z), (0, 0, 0, 1)))"

definition cameraAt :: "vec3 \<Rightarrow> MainCamera" where
  "cameraAt t = \<lparr> mainNear = 1, mainFar = 3, matrixWorld = translation4 t \<rparr>"

definition oneCascadeParams :: CascadedShadowMapsParams where
  "oneCascadeParams =
     \<lparr> p_cascadeCount = Some 1, p_maxCascadeCount = None, p_far = None, p_mode = None,
       p_lambda = None, p_margin = None, p_fade = Some False, p_disableLastCascadeCutoff = None,
       p_intensity = None, p_mapSize = Some 5, p_bias = None, p_normalBias = None \<rparr>"

text \<open>
  The instance as the constructor leaves it for a camera at \<open>(tx, 0, 0)\<close>, the instance as
  \<open>update\<close> leaves it with the light of the cascade at \<open>(x, 0, z)\<close>, and the latter after the
  renderer has allocated the render target 7 for the shadow map of the cascade.
\<close>

definition freshCsm :: "real \<Rightarrow> unit CascadedShadowMaps" where
  "freshCsm tx = newCascadedShadowMaps standIns (cameraAt (tx, 0, 0)) oneCascadeParams"

definition fittedLight :: "real \<Rightarrow> real \<Rightarrow> DirectionalLight" where
  "fittedLight x z =
     \<lparr> shadow = \<lparr> camera = \<lparr> camLeft = Some (- 5 / 2), camRight = Some (5 / 2), camTop = Some (5 / 2),
                               camBottom = Some (- 5 / 2), camNear = Some 0, camFar = Some 205 \<rparr>,
                  mapSize = (5, 5), shadowMap = None, intensity = 1 \<rparr>,
       position = Some (x, 0, z), targetPosition = Some (x, 0, z - 1) \<rparr>"

definition settledCsm :: "real \<Rightarrow> real \<Rightarrow> real \<Rightarrow> unit CascadedShadowMaps" where
  "settledCsm tx x z =
     \<lparr> maxCascadeCount = 1, far = 100000, mode = practical, lambda = 1 / 2, margin = 200,
       fade = False, disableLastCascadeCutoff = False, bias = 0, normalBias = 0,
       needsUpdateFrusta = False,
       directionalLight =
         \<lparr> mainLight = plainLight, mainLightIndex = None, cascadedLights = [fittedLight x z],
           direction = (0, 0, - 1) \<rparr>,
       materialStates = (), mainFrustum = pyramid, cascadedFrusta = [pyramid],
       splits = [3], cascades = [(0, Finite 3)], mainCamera = cameraAt (tx, 0, 0),
       disposedMaps = [] \<rparr>"

definition allocatedCsm :: "unit CascadedShadowMaps" where
  "allocatedCsm =
     (settledCsm 0 0 199)
       \<lparr> directionalLight := (directionalLight (settledCsm 0 0 199))
           \<lparr> cascadedLights :=
               [(fittedLight 0 199)\<lparr> shadow := (shadow (fittedLight 0 199))\<lparr> shadowMap := Some 7 \<rparr> \<rparr>] \<rparr> \<rparr>"

subsection \<open>What the frusta update computes, and the quantities of the texel snapping\<close>

definition frustaOf ::
  "'ms CascadedShadowMaps \<Rightarrow>
     real list \<times> (real \<times> bound) list \<times> FrustumCorners list \<times> FrustumCorners \<times> 'ms \<times> ShadowCamera list" where
  "frustaOf s =
     (splits s, cascades s, cascadedFrusta s, mainFrustum s, materialStates s,
      map (\<lambda>light. camera (shadow light)) (cascadedLights (directionalLight s)))"

definition texelWidth :: "'ms CascadedShadowMaps \<Rightarrow> nat \<Rightarrow> number" where
  "texelWidth s i =
     (let cam = camera (shadow (cascadedLights (directionalLight s) ! i))
      in do {
           cRight \<leftarrow> camRight cam;
           cLeft \<leftarrow> camLeft cam;
           fdiv (cRight - cLeft) (get_mapSize s)
         })"

definition texelHeight :: "'ms CascadedShadowMaps \<Rightarrow> nat \<Rightarrow> number" where
  "texelHeight s i =
     (let cam = camera (shadow (cascadedLights (directionalLight s) ! i))
      in do {
           cTop \<leftarrow> camTop cam;
           cBottom \<leftarrow> camBottom cam;
           fdiv (cTop - cBottom) (get_mapSize s)
         })"

definition cascadeCenter :: "'ms collaborators \<Rightarrow> 'ms CascadedShadowMaps \<Rightarrow> nat \<Rightarrow> vec3 option" where
  "cascadeCenter D s i = lightSpaceCenter (cameraToLight D s) (margin s) (cascadedFrusta s ! i)"

definition lightPosition :: "'ms CascadedShadowMaps \<Rightarrow> nat \<Rightarrow> vec3 option" where
  "lightPosition s i = position (cascadedLights (directionalLight s) ! i)"

section \<open>Square roots of squares\<close>

lemma sqrt_16: "sqrt 16 = 4"
  by (rule real_sqrt_unique) simp_all

lemma sqrt_25: "sqrt 25 = 5"
  by (rule real_sqrt_unique) simp_all

lemma sqrt_100: "sqrt 100 = 10"
  by (rule real_sqrt_unique) simp_all

section \<open>Properties of the cloud raymarcher\<close>

declare marchLoop.simps [simp del]

lemma underflow_nonneg: "0 \<le> x \<Longrightarrow> 0 \<le> underflow x \<and> underflow x \<le> x"
  by (simp add: underflow_def)

lemma expf_bounds: "0 \<le> x \<Longrightarrow> 0 \<le> expf (- x) \<and> expf (- x) \<le> 1"
proof -
  assume "0 \<le> x"
  then have "exp (- x) \<le> 1" by simp
  moreover have "0 \<le> exp (- x)" by simp
  ultimately show ?thesis
    using underflow_nonneg [of "exp (- x)"] unfolding expf_def by linarith
qed

lemma mulf_bounds: "0 \<le> a \<Longrightarrow> 0 \<le> b \<Longrightarrow> b \<le> 1 \<Longrightarrow> 0 \<le> mulf a b \<and> mulf a b \<le> a"
proof -
  assume a: "0 \<le> a" and b: "0 \<le> b" "b \<le> 1"
  have "0 \<le> a * b" using a b by simp
  moreover have "a * b \<le> a" using a b by (simp add: mult_left_le)
  ultimately show ?thesis
    using underflow_nonneg [of "a * b"] unfolding mulf_def by linarith
qed

lemma mulf_one: "mulf 1 (underflow x) = underflow x"
  by (simp add: mulf_def underflow_def)

lemma exp_5_bounds: "6 \<le> exp (5::real)" "exp (5::real) \<le> 243"
proof -
  show "6 \<le> exp (5::real)" using exp_ge_add_one_self [of "5::real"] by simp
  have "exp (5::real) = exp 1 ^ 5" using exp_of_nat_mult [of 5 "1::real"] by simp
  also have "\<dots> \<le> 3 ^ 5" by (rule power_mono) (simp_all add: exp_le)
  finally show "exp (5::real) \<le> 243" by simp
qed

lemma exp_minus_5: "1 / 243 \<le> exp (- 5::real)" "exp (- 5::real) \<le> 1 / 6"
  using exp_5_bounds by (simp_all add: exp_minus field_simps)

lemma expf_minus_5: "expf (- 5) = exp (- 5)"
proof -
  have "(1::real) / 2 ^ 150 < 1 / 243" by simp
  with exp_minus_5(1) have "\<not> \<bar>exp (- 5::real)\<bar> \<le> 1 / 2 ^ 150" by simp
  then show ?thesis by (simp add: expf_def underflow_def)
qed

lemma expf_minus_150: "expf (- 150) = 0"
proof -
  have "exp (150::real) = exp 1 ^ 150" using exp_of_nat_mult [of 150 "1::real"] by simp
  moreover have "(2::real) ^ 150 \<le> exp 1 ^ 150"
    by (rule power_mono) (use exp_ge_add_one_self [of "1::real"] in simp_all)
  ultimately have "(2::real) ^ 150 \<le> exp 150" by simp
  then have "exp (- 150::real) \<le> 1 / 2 ^ 150"
    by (simp add: exp_minus field_simps)
  then show ?thesis by (simp add: expf_def underflow_def)
qed

lemma expf_5: "expf 5 = exp 5"
proof -
  have "\<not> \<bar>exp (5::real)\<bar> \<le> 1 / 2 ^ 150" using exp_5_bounds(1) by simp
  then show ?thesis by (simp add: expf_def underflow_def)
qed

lemma Max_snoc: "Max (set (0 # (ds @ [d]))) = max (Max (set (0 # ds))) (d::real)"
proof -
  have "set (0 # (ds @ [d])) = insert d (set (0 # ds))" by auto
  then have "Max (set (0 # (ds @ [d]))) = max d (Max (set (0 # ds)))"
    by (simp only: Max_insert [OF List.finite_set] ) simp
  then show ?thesis by (simp add: max.commute)
qed

lemma accumulatedDistances_Suc:
  "accumulatedDistances E A r0 st (Suc n) =
     accumulatedDistances E A r0 st n @
       (if accumulates E A (sampleDistance r0 st n) then [sampleDistance r0 st n] else [])"
  by (simp add: accumulatedDistances_def)

lemma sampleStep_stateAfter:
  "sampleStep E A st (stateAfter E A r0 st n (sampleDistance r0 st n))
     = stateAfter E A r0 st (Suc n) (sampleDistance r0 st n)"
  by (simp add: sampleStep_def stateAfter_def Let_def accumulatedDistances_Suc
     accumulates_def scaledDensity_def detailedDensity_def sampleWeatherAt_def samplePosition_def Max_snoc
     del: set_simps List.set_simps)

lemma stateAfter_sel [simp]:
  "rayDistance (stateAfter E A r0 st n r) = r"
  "transmittanceIntegral (stateAfter E A r0 st n r) = transmittanceAfter E A r0 st n"
  by (simp_all add: stateAfter_def Let_def)

lemma stateAfter_advance:
  "(stateAfter E A r0 st n r)\<lparr> rayDistance := r' \<rparr> = stateAfter E A r0 st n r'"
  by (simp add: stateAfter_def Let_def)

lemma sampleDistance_Suc: "sampleDistance r0 st n + st = sampleDistance r0 st (Suc n)"
  by (simp add: sampleDistance_def algebra_simps)

lemma marchLoop_facts:
  "0 \<le> i \<Longrightarrow>
   loopFacts E A r0 st i
     (marchLoop E A st i (stateAfter E A r0 st (nat i) (sampleDistance r0 st (nat i))))"
proof (induction "nat (maxIterations E - i)" arbitrary: i rule: less_induct)
  case less
  let ?s = "stateAfter E A r0 st (nat i) (sampleDistance r0 st (nat i))"
  show ?case
  proof (cases "i < maxIterations E")
    case False
    then show ?thesis
      by (subst marchLoop.simps) (simp add: loopFacts_def)
  next
    case inside: True
    show ?thesis
    proof (cases "rayDistance ?s > maxRayDistance A")
      case True
      with inside show ?thesis
        by (subst marchLoop.simps) (simp add: loopFacts_def)
    next
      case notfar: False
      let ?s1 = "stateAfter E A r0 st (Suc (nat i)) (sampleDistance r0 st (nat i))"
      have step: "sampleStep E A st ?s = ?s1" by (rule sampleStep_stateAfter)
      show ?thesis
      proof (cases "transmittanceIntegral ?s1 \<le> minTransmittance E")
        case True
        with inside notfar step show ?thesis
          by (subst marchLoop.simps) (simp add: loopFacts_def Let_def)
      next
        case cont: False
        have nat_eq: "nat (i + 1) = Suc (nat i)" using less.prems by simp
        have next_state: "?s1\<lparr> rayDistance := rayDistance ?s1 + st \<rparr>
            = stateAfter E A r0 st (nat (i + 1)) (sampleDistance r0 st (nat (i + 1)))"
          by (simp add: stateAfter_advance sampleDistance_Suc nat_eq)
        have unfold: "marchLoop E A st i ?s
            = marchLoop E A st (i + 1)
                (stateAfter E A r0 st (nat (i + 1)) (sampleDistance r0 st (nat (i + 1))))"
          using inside notfar cont step next_state
          by (subst marchLoop.simps) (simp add: Let_def)
        have IH: "loopFacts E A r0 st (i + 1)
            (marchLoop E A st (i + 1)
                (stateAfter E A r0 st (nat (i + 1)) (sampleDistance r0 st (nat (i + 1)))))"
          using less.hyps [of "i + 1"] inside less.prems by simp
        obtain i' e s' where R: "marchLoop E A st (i + 1)
                (stateAfter E A r0 st (nat (i + 1)) (sampleDistance r0 st (nat (i + 1)))) = (i', e, s')"
          by (cases "marchLoop E A st (i + 1)
                (stateAfter E A r0 st (nat (i + 1)) (sampleDistance r0 st (nat (i + 1))))") auto
        have here: "sampleDistance r0 st (nat i) \<le> maxRayDistance A
           \<and> minTransmittance E < transmittanceAfter E A r0 st (Suc (nat i))"
          using notfar cont by simp
        have range: "\<And>j. nat i \<le> j \<Longrightarrow> j = nat i \<or> nat (i + 1) \<le> j"
          using nat_eq by auto
        from IH R here inside less.prems show ?thesis
          unfolding unfold R loopFacts_def
          by (auto split: loop_exit.splits dest!: range)
      qed
    qed
  qed
qed

lemma stateAfter_0: "stateAfter E A r0 st 0 r0 = initialState r0"
  by (simp add: stateAfter_def initialState_def accumulatedDistances_def)

lemma marchRun_facts:
  "marchSetup E A = (r0, st) \<Longrightarrow> loopFacts E A r0 st 0 (marchRun E A)"
  using marchLoop_facts [of 0 E A r0 st]
  by (simp add: marchRun_def stateAfter_0 sampleDistance_def)

lemma Max_0_Cons: "ds \<noteq> [] \<Longrightarrow> Max (set (0 # ds)) = max 0 (Max (set (ds::real list)))"
  by simp

text \<open>
  Claim C1, as the code has it.  When no sample was accumulated \<open>marchToClouds\<close> returns
  \<open>(maxRayDistance, 0, 0, 0)\<close>.  Otherwise it returns the front depth, the sum of the
  accumulated (scaled) densities divided by their number, the sum of the optical depths of the
  accumulated samples, and 1.  The front depth starts at 0 and is raised by \<open>max\<close>, so it is the
  larger of 0 and the greatest ray distance at which a sample was accumulated.
\<close>

theorem marchToClouds_result:
  "marchToClouds E A =
     (let ds = accumulatedSamples E A; stepSize = snd (marchSetup E A)
      in if ds = [] then (maxRayDistance A, 0, 0, 0)
         else (max 0 (Max (set ds)),
               (\<Sum>d\<leftarrow>ds. scaledDensity E A d) / real (length ds),
               (\<Sum>d\<leftarrow>ds. scaledDensity E A d * stepSize),
               1))"
proof -
  obtain r0 st where S: "marchSetup E A = (r0, st)" by (cases "marchSetup E A") auto
  obtain i e s where R: "marchRun E A = (i, e, s)" by (cases "marchRun E A") auto
  define n where "n = samplesTaken (i, e, s)"
  define ds where "ds = accumulatedDistances E A r0 st n"
  have s: "s = stateAfter E A r0 st n (sampleDistance r0 st (nat i))"
    using marchRun_facts [OF S] by (simp add: R loopFacts_def n_def)
  have acc: "accumulatedSamples E A = ds"
    by (simp add: accumulatedSamples_def S R ds_def n_def)
  have fields: "sampleCount s = int (length ds)" "frontDepth s = Max (set (0 # ds))"
    "extinctionSum s = (\<Sum>d\<leftarrow>ds. scaledDensity E A d)"
    "maxOpticalDepth s = (\<Sum>d\<leftarrow>ds. scaledDensity E A d * st)"
    unfolding s by (simp_all add: stateAfter_def Let_def ds_def del: set_simps)
  show ?thesis
  proof (cases "ds = []")
    case True
    then show ?thesis by (simp add: marchToClouds_def R acc fields)
  next
    case False
    then have "Max (set (0 # ds)) = max 0 (Max (set ds))" by (rule Max_0_Cons)
    with False show ?thesis
      by (simp add: marchToClouds_def R acc fields S del: set_simps)
  qed
qed


lemma marchLoop_far:
  "i < maxIterations E \<Longrightarrow> maxRayDistance A < rayDistance s \<Longrightarrow>
   marchLoop E A st i s = (i, Termination, s)"
  by (subst marchLoop.simps) simp

lemma marchLoop_early:
  "i < maxIterations E \<Longrightarrow> rayDistance s \<le> maxRayDistance A \<Longrightarrow>
   transmittanceIntegral (sampleStep E A st s) \<le> minTransmittance E \<Longrightarrow>
   marchLoop E A st i s = (i, EarlyTermination, sampleStep E A st s)"
  by (subst marchLoop.simps) (simp add: Let_def)

lemma marchLoop_continue:
  "i < maxIterations E \<Longrightarrow> rayDistance s \<le> maxRayDistance A \<Longrightarrow>
   minTransmittance E < transmittanceIntegral (sampleStep E A st s) \<Longrightarrow>
   marchLoop E A st i s =
     marchLoop E A st (i + 1)
       ((sampleStep E A st s)\<lparr> rayDistance := rayDistance (sampleStep E A st s) + st \<rparr>)"
  by (subst marchLoop.simps) (simp add: Let_def)

lemma marchLoop_exhausted:
  "maxIterations E \<le> i \<Longrightarrow> marchLoop E A st i s = (i, IterationsExhausted, s)"
  by (subst marchLoop.simps) simp

lemma transmittance_one_sample: "mulf 1 (expf (- 5)) = exp (- 5)"
  using mulf_one [of "exp (- 5)"] expf_minus_5 by (simp add: expf_def)

lemma marchSetup_uniformCloud: "marchSetup (uniformCloud n minT) jitteredRay = (- 1 / 2, 1)"
  by (simp add: marchSetup_def uniformCloud_def jitteredRay_def clamp_def)

lemma intersectsSceneObjects_uniformCloud: "\<not> intersectsSceneObjects (uniformCloud n minT) p"
  by (auto simp add: intersectsSceneObjects_def uniformCloud_def Let_def split: prod.splits)

lemma accumulates_uniformCloud: "accumulates (uniformCloud n minT) jitteredRay r"
  by (simp add: accumulates_def intersectsSceneObjects_uniformCloud detailedDensity_def)
     (simp add: uniformCloud_def)

lemma scaledDensity_uniformCloud: "scaledDensity (uniformCloud n minT) jitteredRay r = 5"
  by (simp add: scaledDensity_def detailedDensity_def uniformCloud_def)

lemma sampleStep_uniformCloud:
  "sampleStep (uniformCloud n minT) jitteredRay st s =
     s\<lparr> frontDepth := max (frontDepth s) (rayDistance s),
        extinctionSum := extinctionSum s + 5,
        maxOpticalDepth := maxOpticalDepth s + 5 * st,
        transmittanceIntegral := mulf (transmittanceIntegral s) (expf (- 5 * st)),
        sampleCount := sampleCount s + 1 \<rparr>"
  by (simp add: sampleStep_def intersectsSceneObjects_uniformCloud Let_def)
     (simp add: uniformCloud_def)

lemma marchRun_one:
  "marchRun (uniformCloud 1 0) jitteredRay =
     (1, IterationsExhausted,
      \<lparr> rayDistance = 1 / 2, extinctionSum = 5, maxOpticalDepth = 5,
        transmittanceIntegral = exp (- 5), frontDepth = 0, sampleCount = 1 \<rparr>)"
proof -
  let ?E = "uniformCloud 1 0"
  let ?s0 = "initialState (- 1 / 2)"
  let ?s1 = "\<lparr> rayDistance = - 1 / 2, extinctionSum = 5, maxOpticalDepth = 5,
        transmittanceIntegral = exp (- 5), frontDepth = 0, sampleCount = 1 \<rparr>"
  have step: "sampleStep ?E jitteredRay 1 ?s0 = ?s1"
    by (simp add: sampleStep_uniformCloud initialState_def transmittance_one_sample)
  have E: "maxIterations ?E = 1" "minTransmittance ?E = 0" by (simp_all add: uniformCloud_def)
  have c1: "0 < maxIterations ?E" unfolding E by simp
  have c2: "rayDistance ?s0 \<le> maxRayDistance jitteredRay"
    by (simp add: jitteredRay_def initialState_def)
  have c3: "minTransmittance ?E < transmittanceIntegral (sampleStep ?E jitteredRay 1 ?s0)"
    unfolding step E by simp
  have c4: "maxIterations ?E \<le> 0 + 1" unfolding E by simp
  have "marchLoop ?E jitteredRay 1 0 ?s0 = (0 + 1, IterationsExhausted, ?s1\<lparr> rayDistance := rayDistance ?s1 + 1 \<rparr>)"
    unfolding marchLoop_continue [OF c1 c2 c3] marchLoop_exhausted [OF c4] step by (rule refl)
  then show ?thesis
    by (simp add: marchRun_def marchSetup_uniformCloud)
qed

text \<open>
  The front depth is not always the greatest ray distance of an accumulated sample: the jitter
  puts the first sample of this march at the ray distance \<open>-1/2\<close>, it is the only sample and it
  is accumulated, and the front depth that is returned is 0.
\<close>

theorem marchToClouds_frontDepth_counterexample:
  "accumulatedSamples (uniformCloud 1 0) jitteredRay = [- 1 / 2]
   \<and> marchToClouds (uniformCloud 1 0) jitteredRay = (0, 5, 5, 1)
   \<and> fst (marchToClouds (uniformCloud 1 0) jitteredRay)
       \<noteq> Max (set (accumulatedSamples (uniformCloud 1 0) jitteredRay))"
proof -
  have a: "accumulatedSamples (uniformCloud 1 0) jitteredRay = [- 1 / 2]"
    by (simp add: accumulatedSamples_def marchSetup_uniformCloud marchRun_one
        accumulatedDistances_def accumulates_uniformCloud sampleDistance_def)
  have m: "marchToClouds (uniformCloud 1 0) jitteredRay = (0, 5, 5, 1)"
    by (simp add: marchToClouds_def marchRun_one)
  show ?thesis unfolding a m by simp
qed


declare marchTrace.simps [simp del]

text \<open>
  Claim C6, with \<open>K\<close> counting the iterations of the loop.  The loop begins at most
  \<open>maxIterations\<close> iterations.  No iteration that was completed had a ray distance beyond
  \<open>maxRayDistance\<close> or left a transmittance at or below \<open>minTransmittance\<close>: the loop is left in
  the first iteration in which one of the two happens, through the first \<open>break\<close> with the ray
  distance beyond the maximum, through the second with the transmittance at or below the minimum,
  and it runs through all \<open>maxIterations\<close> iterations otherwise.  When the density field brings
  the transmittance to \<open>minTransmittance\<close> or below within the first \<open>K\<close> iterations, those whose
  sample is skipped counted as well as those whose sample is accumulated, the loop begins at
  most \<open>K\<close> iterations, hence at most \<open>K + 1\<close>.  For \<open>K = 0\<close>, when the transmittance is at or below
  the minimum before the first iteration, the loop begins at most one iteration, provided that
  the step size and the detailed density are not negative.
\<close>

theorem marchLoop_iterations:
  "case marchSetup E A of (r0, stepSize) \<Rightarrow>
   case marchRun E A of (i, e, s) \<Rightarrow>
       iterationsBegun (i, e, s) \<le> nat (maxIterations E)
     \<and> (\<forall>j < nat i. sampleDistance r0 stepSize j \<le> maxRayDistance A
                  \<and> minTransmittance E < transmittanceAfter E A r0 stepSize (Suc j))
     \<and> (e = Termination \<longrightarrow>
          maxRayDistance A < rayDistance s \<and> rayDistance s = sampleDistance r0 stepSize (nat i))
     \<and> (e = EarlyTermination \<longrightarrow>
          transmittanceIntegral s \<le> minTransmittance E
        \<and> transmittanceIntegral s = transmittanceAfter E A r0 stepSize (Suc (nat i)))
     \<and> (e = IterationsExhausted \<longrightarrow> i = max 0 (maxIterations E))
     \<and> (\<forall>K k. 1 \<le> k \<and> k \<le> K \<and> transmittanceAfter E A r0 stepSize k \<le> minTransmittance E
           \<longrightarrow> iterationsBegun (i, e, s) \<le> K)
     \<and> (1 \<le> minTransmittance E \<and> 0 \<le> stepSize \<and> nonNegativeDensity E
           \<longrightarrow> iterationsBegun (i, e, s) \<le> 1)"
proof -
  obtain r0 st where S: "marchSetup E A = (r0, st)" by (cases "marchSetup E A") auto
  obtain i e s where R: "marchRun E A = (i, e, s)" by (cases "marchRun E A") auto
  have F: "loopFacts E A r0 st 0 (i, e, s)"
    using marchRun_facts [OF S] by (simp add: R)
  have i0: "0 \<le> i" using F by (simp add: loopFacts_def)
  have s: "s = stateAfter E A r0 st (samplesTaken (i, e, s)) (sampleDistance r0 st (nat i))"
    using F by (simp add: loopFacts_def)
  have completed: "\<forall>j < nat i. sampleDistance r0 st j \<le> maxRayDistance A
                  \<and> minTransmittance E < transmittanceAfter E A r0 st (Suc j)"
    using F by (simp add: loopFacts_def)
  have bound: "iterationsBegun (i, e, s) \<le> nat (maxIterations E)"
    using F i0 by (cases e) (auto simp add: loopFacts_def)
  have rayEnd: "e = Termination \<longrightarrow>
          maxRayDistance A < rayDistance s \<and> rayDistance s = sampleDistance r0 st (nat i)"
  proof
    assume e: "e = Termination"
    have "rayDistance s = sampleDistance r0 st (nat i)" by (subst s) simp
    moreover have "maxRayDistance A < sampleDistance r0 st (nat i)"
      using F e by (simp add: loopFacts_def)
    ultimately show "maxRayDistance A < rayDistance s \<and> rayDistance s = sampleDistance r0 st (nat i)"
      by simp
  qed
  have early: "e = EarlyTermination \<longrightarrow>
          transmittanceIntegral s \<le> minTransmittance E
        \<and> transmittanceIntegral s = transmittanceAfter E A r0 st (Suc (nat i))"
  proof
    assume e: "e = EarlyTermination"
    have "transmittanceIntegral s = transmittanceAfter E A r0 st (samplesTaken (i, e, s))"
      by (subst s) simp
    then have "transmittanceIntegral s = transmittanceAfter E A r0 st (Suc (nat i))"
      using e by simp
    moreover have "transmittanceAfter E A r0 st (Suc (nat i)) \<le> minTransmittance E"
      using F e by (simp add: loopFacts_def)
    ultimately show "transmittanceIntegral s \<le> minTransmittance E
        \<and> transmittanceIntegral s = transmittanceAfter E A r0 st (Suc (nat i))" by simp
  qed
  have exhausted: "e = IterationsExhausted \<longrightarrow> i = max 0 (maxIterations E)"
    using F by (cases e) (simp_all add: loopFacts_def)
  have sat: "\<forall>K k. 1 \<le> k \<and> k \<le> K \<and> transmittanceAfter E A r0 st k \<le> minTransmittance E
           \<longrightarrow> iterationsBegun (i, e, s) \<le> K"
  proof (intro allI impI)
    fix K k :: nat
    assume h: "1 \<le> k \<and> k \<le> K \<and> transmittanceAfter E A r0 st k \<le> minTransmittance E"
    have "\<not> (k - 1 < nat i)"
    proof
      assume "k - 1 < nat i"
      with completed have "minTransmittance E < transmittanceAfter E A r0 st (Suc (k - 1))" by blast
      with h show False by simp
    qed
    then have "nat i + 1 \<le> k" using h by linarith
    moreover have "iterationsBegun (i, e, s) \<le> nat i + 1" by (cases e) simp_all
    ultimately show "iterationsBegun (i, e, s) \<le> K" using h by linarith
  qed
  have first: "1 \<le> minTransmittance E \<and> 0 \<le> st \<and> nonNegativeDensity E
           \<longrightarrow> iterationsBegun (i, e, s) \<le> 1"
  proof
    assume h: "1 \<le> minTransmittance E \<and> 0 \<le> st \<and> nonNegativeDensity E"
    define d where "d = scaledDensity E A (sampleDistance r0 st 0)"
    have "0 \<le> detailedDensity E A (sampleDistance r0 st 0)"
      using h unfolding detailedDensity_def nonNegativeDensity_def by blast
    then have "0 \<le> d * st" using h by (simp add: d_def scaledDensity_def)
    then have "0 \<le> expf (- (d * st)) \<and> expf (- (d * st)) \<le> 1" by (rule expf_bounds)
    then have "mulf 1 (expf (- (d * st))) \<le> 1"
      using mulf_bounds [of 1 "expf (- (d * st))"] by simp
    then have "transmittanceAfter E A r0 st (Suc 0) \<le> 1" by (simp add: d_def)
    then have "transmittanceAfter E A r0 st 1 \<le> minTransmittance E" using h by simp
    with sat show "iterationsBegun (i, e, s) \<le> 1" by (metis le_refl)
  qed
  show ?thesis
    unfolding S R prod.case
    by (intro conjI bound completed rayEnd early exhausted sat first)
qed

lemma marchRun_saturated:
  "marchRun (uniformCloud 4 (1 / 2)) jitteredRay =
     (0, EarlyTermination,
      \<lparr> rayDistance = - 1 / 2, extinctionSum = 5, maxOpticalDepth = 5,
        transmittanceIntegral = exp (- 5), frontDepth = 0, sampleCount = 1 \<rparr>)"
proof -
  let ?E = "uniformCloud 4 (1 / 2)"
  let ?s0 = "initialState (- 1 / 2)"
  let ?s1 = "\<lparr> rayDistance = - 1 / 2, extinctionSum = 5, maxOpticalDepth = 5,
        transmittanceIntegral = exp (- 5), frontDepth = 0, sampleCount = 1 \<rparr>"
  have step: "sampleStep ?E jitteredRay 1 ?s0 = ?s1"
    by (simp add: sampleStep_uniformCloud initialState_def transmittance_one_sample)
  have E: "maxIterations ?E = 4" "minTransmittance ?E = 1 / 2" by (simp_all add: uniformCloud_def)
  have low: "exp (- 5::real) \<le> 1 / 2" using exp_minus_5(2) by simp
  have c1: "0 < maxIterations ?E" unfolding E by simp
  have c2: "rayDistance ?s0 \<le> maxRayDistance jitteredRay"
    by (simp add: jitteredRay_def initialState_def)
  have c3: "transmittanceIntegral (sampleStep ?E jitteredRay 1 ?s0) \<le> minTransmittance ?E"
    unfolding step E using low by simp
  have "marchLoop ?E jitteredRay 1 0 ?s0 = (0, EarlyTermination, ?s1)"
    unfolding marchLoop_early [OF c1 c2 c3] step by (rule refl)
  then show ?thesis
    by (simp add: marchRun_def marchSetup_uniformCloud)
qed

theorem marchLoop_iterations_witness:
  "transmittanceAfter (uniformCloud 4 (1 / 2)) jitteredRay (- 1 / 2) 1 1 = exp (- 5)
   \<and> exp (- 5) \<le> minTransmittance (uniformCloud 4 (1 / 2))
   \<and> minTransmittance (uniformCloud 4 (1 / 2)) < 1
   \<and> iterationsBegun (marchRun (uniformCloud 4 (1 / 2)) jitteredRay) \<le> 1
   \<and> iterationsBegun (marchRun (uniformCloud 4 (1 / 2)) jitteredRay)
       \<le> nat (maxIterations (uniformCloud 4 (1 / 2)))"
proof -
  have t: "transmittanceAfter (uniformCloud 4 (1 / 2)) jitteredRay (- 1 / 2) 1 1 = exp (- 5)"
    by (simp add: accumulates_uniformCloud scaledDensity_uniformCloud transmittance_one_sample)
  have m: "minTransmittance (uniformCloud 4 (1 / 2)) = 1 / 2" by (simp add: uniformCloud_def)
  have low: "exp (- 5::real) \<le> 1 / 2" using exp_minus_5(2) by simp
  from marchLoop_iterations [of "uniformCloud 4 (1 / 2)" jitteredRay] t m low
  show ?thesis
    by (simp add: marchSetup_uniformCloud marchRun_saturated)
qed

lemma sampleStep_lateCloud:
  "sampleStep (lateCloud n minT) jitteredRay st s =
     (if 1 < rayDistance s
      then s\<lparr> frontDepth := max (frontDepth s) (rayDistance s),
              extinctionSum := extinctionSum s + 5,
              maxOpticalDepth := maxOpticalDepth s + 5 * st,
              transmittanceIntegral := mulf (transmittanceIntegral s) (expf (- 5 * st)),
              sampleCount := sampleCount s + 1 \<rparr>
      else s)"
proof -
  have occ: "\<not> intersectsSceneObjects (lateCloud n minT) p" for p
    by (auto simp add: intersectsSceneObjects_def lateCloud_def uniformCloud_def Let_def
        split: prod.splits)
  show ?thesis
    by (simp add: sampleStep_def occ Let_def) (simp add: lateCloud_def uniformCloud_def jitteredRay_def)
qed

lemma accumulates_lateCloud: "accumulates (lateCloud n minT) jitteredRay r = (1 < r)"
proof -
  have occ: "\<not> intersectsSceneObjects (lateCloud n minT) p" for p
    by (auto simp add: intersectsSceneObjects_def lateCloud_def uniformCloud_def Let_def
        split: prod.splits)
  show ?thesis
    by (simp add: accumulates_def occ detailedDensity_def samplePosition_def)
       (simp add: lateCloud_def uniformCloud_def jitteredRay_def)
qed

lemma marchSetup_lateCloud: "marchSetup (lateCloud n minT) jitteredRay = (- 1 / 2, 1)"
  by (simp add: marchSetup_def lateCloud_def uniformCloud_def jitteredRay_def clamp_def)

lemma marchRun_lateCloud:
  "marchRun (lateCloud 4 (1 / 2)) jitteredRay =
     (2, EarlyTermination,
      \<lparr> rayDistance = 3 / 2, extinctionSum = 5, maxOpticalDepth = 5,
        transmittanceIntegral = exp (- 5), frontDepth = 3 / 2, sampleCount = 1 \<rparr>)"
proof -
  let ?E = "lateCloud 4 (1 / 2)"
  let ?s0 = "initialState (- 1 / 2)"
  let ?s1 = "(initialState (- 1 / 2))\<lparr> rayDistance := 1 / 2 \<rparr>"
  let ?s2 = "(initialState (- 1 / 2))\<lparr> rayDistance := 3 / 2 \<rparr>"
  let ?s3 = "\<lparr> rayDistance = 3 / 2, extinctionSum = 5, maxOpticalDepth = 5,
        transmittanceIntegral = exp (- 5), frontDepth = 3 / 2, sampleCount = 1 \<rparr>"
  have E: "maxIterations ?E = 4" "minTransmittance ?E = 1 / 2"
    by (simp_all add: lateCloud_def uniformCloud_def)
  have A: "maxRayDistance jitteredRay = 10" by (simp add: jitteredRay_def)
  have low: "exp (- 5::real) \<le> 1 / 2" using exp_minus_5(2) by simp
  have step0: "sampleStep ?E jitteredRay 1 ?s0 = ?s0"
    by (simp add: sampleStep_lateCloud initialState_def)
  have step1: "sampleStep ?E jitteredRay 1 ?s1 = ?s1"
    by (simp add: sampleStep_lateCloud initialState_def)
  have step2: "sampleStep ?E jitteredRay 1 ?s2 = ?s3"
    by (simp add: sampleStep_lateCloud initialState_def transmittance_one_sample)
  have next0: "?s0\<lparr> rayDistance := rayDistance ?s0 + 1 \<rparr> = ?s1" by (simp add: initialState_def)
  have next1: "?s1\<lparr> rayDistance := rayDistance ?s1 + 1 \<rparr> = ?s2" by (simp add: initialState_def)
  have a1: "0 < maxIterations ?E" "0 + 1 < maxIterations ?E" "0 + 1 + 1 < maxIterations ?E"
    unfolding E by simp_all
  have a2: "rayDistance ?s0 \<le> maxRayDistance jitteredRay"
    "rayDistance ?s1 \<le> maxRayDistance jitteredRay" "rayDistance ?s2 \<le> maxRayDistance jitteredRay"
    unfolding A by (simp_all add: initialState_def)
  have a3: "minTransmittance ?E < transmittanceIntegral (sampleStep ?E jitteredRay 1 ?s0)"
    "minTransmittance ?E < transmittanceIntegral (sampleStep ?E jitteredRay 1 ?s1)"
    unfolding step0 step1 E by (simp_all add: initialState_def)
  have a4: "transmittanceIntegral (sampleStep ?E jitteredRay 1 ?s2) \<le> minTransmittance ?E"
    unfolding step2 E using low by simp
  have "marchLoop ?E jitteredRay 1 0 ?s0 = (0 + 1 + 1, EarlyTermination, ?s3)"
    unfolding marchLoop_continue [OF a1(1) a2(1) a3(1)] step0 next0
      marchLoop_continue [OF a1(2) a2(2) a3(2)] step1 next1
      marchLoop_early [OF a1(3) a2(3) a4] step2
    by (rule refl)
  then show ?thesis
    by (simp add: marchRun_def marchSetup_lateCloud)
qed

text \<open>
  The bound does not hold when \<open>K\<close> counts the accumulating steps only.  In this march the cloud
  begins behind the first two samples: they are skipped, the third is accumulated and brings the
  transmittance from 1 to \<open>exp (- 5)\<close>, below the minimum of one half.  The density field has
  saturated the transmittance within one accumulating step, one is less than \<open>maxIterations\<close>,
  and the loop has begun three iterations, which is more than two.
\<close>

theorem marchLoop_skipped_samples_counterexample:
  "accumulatedSamples (lateCloud 4 (1 / 2)) jitteredRay = [3 / 2]
   \<and> transmittanceIntegral (snd (snd (marchRun (lateCloud 4 (1 / 2)) jitteredRay)))
       \<le> minTransmittance (lateCloud 4 (1 / 2))
   \<and> (1::nat) < nat (maxIterations (lateCloud 4 (1 / 2)))
   \<and> iterationsBegun (marchRun (lateCloud 4 (1 / 2)) jitteredRay) = 3"
proof -
  have a: "accumulatedSamples (lateCloud 4 (1 / 2)) jitteredRay = [3 / 2]"
    by (simp add: accumulatedSamples_def marchSetup_lateCloud marchRun_lateCloud
        accumulatedDistances_def accumulates_lateCloud sampleDistance_def upt_rec)
  have low: "exp (- 5::real) \<le> 1 / 2" using exp_minus_5(2) by simp
  have E: "maxIterations (lateCloud 4 (1 / 2)) = 4" "minTransmittance (lateCloud 4 (1 / 2)) = 1 / 2"
    by (simp_all add: lateCloud_def uniformCloud_def)
  show ?thesis unfolding a marchRun_lateCloud E using low by simp
qed

lemma sampleStep_cases:
  "sampleStep E A st s = s
   \<or> transmittanceIntegral (sampleStep E A st s)
       = mulf (transmittanceIntegral s) (expf (- (detailedDensity E A (rayDistance s) * 5 * st)))"
  by (simp add: sampleStep_def Let_def detailedDensity_def sampleWeatherAt_def samplePosition_def)

lemma sampleStep_transmittance:
  assumes "0 \<le> st" and "\<forall>w p m. 0 \<le> sampleShape E w p m" and "0 \<le> transmittanceIntegral s"
  shows "0 \<le> transmittanceIntegral (sampleStep E A st s)
       \<and> transmittanceIntegral (sampleStep E A st s) \<le> transmittanceIntegral s"
proof -
  define d where "d = detailedDensity E A (rayDistance s)"
  have "0 \<le> d" using assms(2) unfolding d_def detailedDensity_def by blast
  then have "0 \<le> d * 5 * st" using assms(1) by simp
  then have factor: "0 \<le> expf (- (d * 5 * st)) \<and> expf (- (d * 5 * st)) \<le> 1"
    by (rule expf_bounds)
  then have product: "0 \<le> mulf (transmittanceIntegral s) (expf (- (d * 5 * st)))
      \<and> mulf (transmittanceIntegral s) (expf (- (d * 5 * st))) \<le> transmittanceIntegral s"
    using mulf_bounds [OF assms(3), of "expf (- (d * 5 * st))"] by blast
  from sampleStep_cases [of E A st s] show ?thesis
  proof
    assume "sampleStep E A st s = s"
    then show ?thesis using assms(3) by simp
  next
    assume "transmittanceIntegral (sampleStep E A st s)
       = mulf (transmittanceIntegral s) (expf (- (detailedDensity E A (rayDistance s) * 5 * st)))"
    then show ?thesis using product unfolding d_def by simp
  qed
qed

lemma marchTrace_transmittance:
  "0 \<le> st \<Longrightarrow> \<forall>w p m. 0 \<le> sampleShape E w p m \<Longrightarrow> 0 \<le> transmittanceIntegral s \<Longrightarrow>
         hd (marchTrace E A st i s) = s
       \<and> sorted_wrt (\<lambda>a b. transmittanceIntegral b \<le> transmittanceIntegral a) (marchTrace E A st i s)
       \<and> (\<forall>x \<in> set (marchTrace E A st i s).
             0 \<le> transmittanceIntegral x \<and> transmittanceIntegral x \<le> transmittanceIntegral s)"
proof (induction E A st i s rule: marchTrace.induct)
  case (1 E A st i s)
  note step = sampleStep_transmittance [OF "1.prems"(1) "1.prems"(2) "1.prems"(3), of A]
  show ?case
  proof (cases "i < maxIterations E \<and> \<not> rayDistance s > maxRayDistance A
                \<and> \<not> transmittanceIntegral (sampleStep E A st s) \<le> minTransmittance E")
    case False
    then show ?thesis
      using step "1.prems"(3) by (subst (1 2 3) marchTrace.simps) (auto simp add: Let_def)
  next
    case True
    let ?s' = "(sampleStep E A st s)\<lparr> rayDistance := rayDistance (sampleStep E A st s) + st \<rparr>"
    have pos: "0 \<le> transmittanceIntegral ?s'" using step by simp
    have IH: "hd (marchTrace E A st (i + 1) ?s') = ?s'
       \<and> sorted_wrt (\<lambda>a b. transmittanceIntegral b \<le> transmittanceIntegral a) (marchTrace E A st (i + 1) ?s')
       \<and> (\<forall>x \<in> set (marchTrace E A st (i + 1) ?s').
             0 \<le> transmittanceIntegral x \<and> transmittanceIntegral x \<le> transmittanceIntegral ?s')"
      using "1.IH" [OF _ _ refl _ "1.prems"(1) "1.prems"(2) pos] True by simp
    have unfold: "marchTrace E A st i s = s # marchTrace E A st (i + 1) ?s'"
      using True by (subst marchTrace.simps) (simp add: Let_def)
    show ?thesis
      unfolding unfold using IH step "1.prems"(3) by auto
  qed
qed

lemma marchTrace_last:
  "last (marchTrace E A st i s) = snd (snd (marchLoop E A st i s))"
proof (induction E A st i s rule: marchTrace.induct)
  case (1 E A st i s)
  show ?case
  proof (cases "i < maxIterations E \<and> \<not> rayDistance s > maxRayDistance A
                \<and> \<not> transmittanceIntegral (sampleStep E A st s) \<le> minTransmittance E")
    case False
    then show ?thesis
      by (subst marchTrace.simps, subst marchLoop.simps) (auto simp add: Let_def)
  next
    case True
    let ?s' = "(sampleStep E A st s)\<lparr> rayDistance := rayDistance (sampleStep E A st s) + st \<rparr>"
    have IH: "last (marchTrace E A st (i + 1) ?s') = snd (snd (marchLoop E A st (i + 1) ?s'))"
      using "1.IH" [OF _ _ refl] True by simp
    have ne: "marchTrace E A st (i + 1) ?s' \<noteq> []"
      by (subst marchTrace.simps) (simp add: Let_def)
    show ?thesis
      using True IH ne by (subst marchTrace.simps, subst marchLoop.simps) (simp add: Let_def)
  qed
qed


lemma samples_within:
  assumes "loopFacts E A r0 st 0 (i, e, s)" and "j < samplesTaken (i, e, s)"
  shows "sampleDistance r0 st j \<le> maxRayDistance A"
proof (cases "j < nat i")
  case True
  then show ?thesis using assms(1) by (simp add: loopFacts_def)
next
  case False
  with assms(2) have "e = EarlyTermination \<and> j = nat i" by (cases e) simp_all
  then show ?thesis using assms(1) by (simp add: loopFacts_def)
qed

lemma accumulatedDistances_within:
  assumes "\<forall>j < n. sampleDistance r0 st j \<le> m" and "d \<in> set (accumulatedDistances E A r0 st n)"
  shows "d \<le> m"
  using assms by (auto simp add: accumulatedDistances_def)

text \<open>
  Claim C10, with a step size that is not negative and the transmittance in \<open>[0, 1]\<close>.  For a
  maximal ray distance that is not negative, a step size (the one that
  \<open>intersectStructuredPlanes\<close> returns) that is not negative and a detailed density that is
  nowhere negative, the front depth that is returned lies between 0 and \<open>maxRayDistance\<close>, the
  mean extinction and the optical depth are not negative, and over the states of the march (the
  variables at the start of every iteration and when the loop is left) the transmittance starts
  at 1, never increases and stays in \<open>[0, 1]\<close>.  The jitter is not restricted.
\<close>

theorem marchToClouds_bounds:
  assumes "0 \<le> maxRayDistance A"
    and "0 \<le> snd (marchSetup E A)"
    and "nonNegativeDensity E"
  shows "(case marchToClouds E A of (front, mean, depth, valid) \<Rightarrow>
            0 \<le> front \<and> front \<le> maxRayDistance A \<and> 0 \<le> mean \<and> 0 \<le> depth)
       \<and> transmittanceIntegral (hd (marchStates E A)) = 1
       \<and> sorted_wrt (\<lambda>a b. transmittanceIntegral b \<le> transmittanceIntegral a) (marchStates E A)
       \<and> (\<forall>x \<in> set (marchStates E A). 0 \<le> transmittanceIntegral x \<and> transmittanceIntegral x \<le> 1)
       \<and> last (marchStates E A) = snd (snd (marchRun E A))"
proof -
  obtain r0 st where S: "marchSetup E A = (r0, st)" by (cases "marchSetup E A") auto
  obtain i e s where R: "marchRun E A = (i, e, s)" by (cases "marchRun E A") auto
  have st: "0 \<le> st" using assms(2) by (simp add: S)
  have shape: "\<forall>w p m. 0 \<le> sampleShape E w p m"
    using assms(3) unfolding nonNegativeDensity_def .
  have F: "loopFacts E A r0 st 0 (i, e, s)"
    using marchRun_facts [OF S] by (simp add: R)
  define n where "n = samplesTaken (i, e, s)"
  define ds where "ds = accumulatedDistances E A r0 st n"
  have s: "s = stateAfter E A r0 st n (sampleDistance r0 st (nat i))"
    using F by (simp add: loopFacts_def n_def)
  have fields: "sampleCount s = int (length ds)" "frontDepth s = Max (set (0 # ds))"
    "extinctionSum s = (\<Sum>d\<leftarrow>ds. scaledDensity E A d)"
    "maxOpticalDepth s = (\<Sum>d\<leftarrow>ds. scaledDensity E A d * st)"
    unfolding s by (simp_all add: stateAfter_def Let_def ds_def del: set_simps)
  have within: "\<forall>d \<in> set ds. d \<le> maxRayDistance A"
    using accumulatedDistances_within [of n r0 st "maxRayDistance A" _ E A] samples_within [OF F]
    by (auto simp add: ds_def n_def)
  have dens: "0 \<le> scaledDensity E A d" for d
    using shape unfolding scaledDensity_def detailedDensity_def
    by (metis mult_nonneg_nonneg zero_le_numeral)
  have front0: "0 \<le> frontDepth s" unfolding fields by (rule Max_ge) simp_all
  have frontm: "frontDepth s \<le> maxRayDistance A"
    unfolding fields using within assms(1) by (subst Max_le_iff) auto
  have ext: "0 \<le> extinctionSum s" unfolding fields by (rule sum_list_nonneg) (auto simp add: dens)
  have opt: "0 \<le> maxOpticalDepth s" unfolding fields
    by (rule sum_list_nonneg) (auto simp add: dens st)
  have cnt: "0 \<le> sampleCount s" unfolding fields by simp
  have result: "case marchToClouds E A of (front, mean, depth, valid) \<Rightarrow>
            0 \<le> front \<and> front \<le> maxRayDistance A \<and> 0 \<le> mean \<and> 0 \<le> depth"
    using front0 frontm ext opt cnt assms(1) by (simp add: marchToClouds_def R)
  have init: "0 \<le> transmittanceIntegral (initialState r0)" "transmittanceIntegral (initialState r0) = 1"
    by (simp_all add: initialState_def)
  note T = marchTrace_transmittance [OF st shape init(1), of A 0]
  have states: "marchStates E A = marchTrace E A st 0 (initialState r0)"
    by (simp add: marchStates_def S)
  have run: "marchRun E A = marchLoop E A st 0 (initialState r0)"
    by (simp add: marchRun_def S)
  show ?thesis
    unfolding states run using result T init(2) marchTrace_last [of E A st 0 "initialState r0"]
    by simp
qed

theorem marchToClouds_bounds_witness:
  "0 \<le> maxRayDistance jitteredRay
   \<and> 0 \<le> snd (marchSetup (uniformCloud 1 0) jitteredRay)
   \<and> nonNegativeDensity (uniformCloud 1 0)
   \<and> marchToClouds (uniformCloud 1 0) jitteredRay = (0, 5, 5, 1)
   \<and> 0 \<le> fst (marchToClouds (uniformCloud 1 0) jitteredRay)
   \<and> fst (marchToClouds (uniformCloud 1 0) jitteredRay) \<le> maxRayDistance jitteredRay
   \<and> transmittanceIntegral (hd (marchStates (uniformCloud 1 0) jitteredRay)) = 1
   \<and> last (marchStates (uniformCloud 1 0) jitteredRay)
       = \<lparr> rayDistance = 1 / 2, extinctionSum = 5, maxOpticalDepth = 5,
           transmittanceIntegral = exp (- 5), frontDepth = 0, sampleCount = 1 \<rparr>"
proof -
  have h1: "0 \<le> maxRayDistance jitteredRay" by (simp add: jitteredRay_def)
  have h2: "0 \<le> snd (marchSetup (uniformCloud 1 0) jitteredRay)"
    by (simp add: marchSetup_uniformCloud)
  have h3: "nonNegativeDensity (uniformCloud 1 0)"
    by (simp add: nonNegativeDensity_def uniformCloud_def)
  have m: "marchToClouds (uniformCloud 1 0) jitteredRay = (0, 5, 5, 1)"
    by (simp add: marchToClouds_def marchRun_one)
  from marchToClouds_bounds [OF h1 h2 h3] h1 h2 h3 m show ?thesis by (simp add: marchRun_one)
qed

lemma marchSetup_steppedCloud: "marchSetup (steppedCloud n minT st) jitteredRay = (- st / 2, st)"
  by (simp add: marchSetup_def steppedCloud_def uniformCloud_def jitteredRay_def clamp_def)

lemma sampleStep_steppedCloud:
  "sampleStep (steppedCloud n minT st') jitteredRay st s =
     s\<lparr> frontDepth := max (frontDepth s) (rayDistance s),
        extinctionSum := extinctionSum s + 5,
        maxOpticalDepth := maxOpticalDepth s + 5 * st,
        transmittanceIntegral := mulf (transmittanceIntegral s) (expf (- 5 * st)),
        sampleCount := sampleCount s + 1 \<rparr>"
proof -
  have occ: "\<not> intersectsSceneObjects (steppedCloud n minT st') p" for p
    by (auto simp add: intersectsSceneObjects_def steppedCloud_def uniformCloud_def Let_def
        split: prod.splits)
  show ?thesis
    by (simp add: sampleStep_def occ Let_def) (simp add: steppedCloud_def uniformCloud_def)
qed

lemma marchRun_underflow:
  "marchRun (steppedCloud 2 (1 / 100) 30) jitteredRay =
     (0, EarlyTermination,
      \<lparr> rayDistance = - 15, extinctionSum = 5, maxOpticalDepth = 150,
        transmittanceIntegral = 0, frontDepth = 0, sampleCount = 1 \<rparr>)"
proof -
  let ?E = "steppedCloud 2 (1 / 100) 30"
  let ?s0 = "initialState (- 15)"
  let ?s1 = "\<lparr> rayDistance = - 15, extinctionSum = 5, maxOpticalDepth = 150,
        transmittanceIntegral = 0, frontDepth = 0, sampleCount = 1 \<rparr>"
  have step: "sampleStep ?E jitteredRay 30 ?s0 = ?s1"
    by (simp add: sampleStep_steppedCloud initialState_def expf_minus_150)
       (simp add: mulf_def underflow_def)
  have E: "maxIterations ?E = 2" "minTransmittance ?E = 1 / 100"
    by (simp_all add: steppedCloud_def uniformCloud_def)
  have c1: "0 < maxIterations ?E" unfolding E by simp
  have c2: "rayDistance ?s0 \<le> maxRayDistance jitteredRay"
    by (simp add: jitteredRay_def initialState_def)
  have c3: "transmittanceIntegral (sampleStep ?E jitteredRay 30 ?s0) \<le> minTransmittance ?E"
    unfolding step E by simp
  have "marchLoop ?E jitteredRay 30 0 ?s0 = (0, EarlyTermination, ?s1)"
    unfolding marchLoop_early [OF c1 c2 c3] step by (rule refl)
  then show ?thesis
    by (simp add: marchRun_def marchSetup_steppedCloud)
qed

lemma marchRun_backwards:
  "marchRun (steppedCloud 1 0 (- 1)) jitteredRay =
     (1, IterationsExhausted,
      \<lparr> rayDistance = - 1 / 2, extinctionSum = 5, maxOpticalDepth = - 5,
        transmittanceIntegral = exp 5, frontDepth = 1 / 2, sampleCount = 1 \<rparr>)"
proof -
  let ?E = "steppedCloud 1 0 (- 1)"
  let ?s0 = "initialState (1 / 2)"
  let ?s1 = "\<lparr> rayDistance = 1 / 2, extinctionSum = 5, maxOpticalDepth = - 5,
        transmittanceIntegral = exp 5, frontDepth = 1 / 2, sampleCount = 1 \<rparr>"
  have t: "mulf 1 (expf 5) = exp 5"
    using mulf_one [of "exp 5"] expf_5 by (simp add: expf_def)
  have step: "sampleStep ?E jitteredRay (- 1) ?s0 = ?s1"
    by (simp add: sampleStep_steppedCloud initialState_def t)
  have E: "maxIterations ?E = 1" "minTransmittance ?E = 0"
    by (simp_all add: steppedCloud_def uniformCloud_def)
  have c1: "0 < maxIterations ?E" unfolding E by simp
  have c2: "rayDistance ?s0 \<le> maxRayDistance jitteredRay"
    by (simp add: jitteredRay_def initialState_def)
  have c3: "minTransmittance ?E < transmittanceIntegral (sampleStep ?E jitteredRay (- 1) ?s0)"
    unfolding step E by simp
  have c4: "maxIterations ?E \<le> 0 + 1" unfolding E by simp
  have "marchLoop ?E jitteredRay (- 1) 0 ?s0
      = (0 + 1, IterationsExhausted, ?s1\<lparr> rayDistance := rayDistance ?s1 + - 1 \<rparr>)"
    unfolding marchLoop_continue [OF c1 c2 c3] marchLoop_exhausted [OF c4] step by (rule refl)
  moreover have "marchSetup ?E jitteredRay = (1 / 2, - 1)"
    using marchSetup_steppedCloud [of 1 0 "- 1"] by simp
  ultimately show ?thesis
    by (simp add: marchRun_def)
qed

text \<open>
  Two marches with a maximal ray distance of 10, a jitter of one half and the detailed density
  1 everywhere.  In the first the step is 30: the only sample multiplies the transmittance by
  \<open>exp (- 150)\<close>, which is below \<open>2 ^ - 150\<close>, and the loop is left with the transmittance 0,
  which is not in \<open>(0, 1]\<close>.  In the second the uniforms \<open>minStepSize\<close> and \<open>maxStepSize\<close> are
  \<open>- 1\<close> and so is the step: the sample multiplies the transmittance by \<open>exp 5\<close>, which is above
  1, and the optical depth that is returned is \<open>- 5\<close>.
\<close>

theorem marchToClouds_bounds_counterexample:
  "0 \<le> maxRayDistance jitteredRay \<and> 0 \<le> jitter jitteredRay \<and> jitter jitteredRay \<le> 1
   \<and> nonNegativeDensity (steppedCloud 2 (1 / 100) 30)
   \<and> snd (marchSetup (steppedCloud 2 (1 / 100) 30) jitteredRay) = 30
   \<and> transmittanceIntegral (snd (snd (marchRun (steppedCloud 2 (1 / 100) 30) jitteredRay))) = 0
   \<and> nonNegativeDensity (steppedCloud 1 0 (- 1))
   \<and> snd (marchSetup (steppedCloud 1 0 (- 1)) jitteredRay) = - 1
   \<and> marchToClouds (steppedCloud 1 0 (- 1)) jitteredRay = (1 / 2, 5, - 5, 1)
   \<and> 1 < transmittanceIntegral (snd (snd (marchRun (steppedCloud 1 0 (- 1)) jitteredRay)))"
proof -
  have a: "0 \<le> maxRayDistance jitteredRay \<and> 0 \<le> jitter jitteredRay \<and> jitter jitteredRay \<le> 1"
    by (simp add: jitteredRay_def)
  have d: "nonNegativeDensity (steppedCloud n minT st)" for n minT st
    by (simp add: nonNegativeDensity_def steppedCloud_def uniformCloud_def)
  have m: "marchToClouds (steppedCloud 1 0 (- 1)) jitteredRay = (1 / 2, 5, - 5, 1)"
    by (simp add: marchToClouds_def marchRun_backwards)
  have e: "(1::real) < exp 5" using exp_5_bounds(1) by simp
  show ?thesis
    unfolding m marchRun_underflow marchRun_backwards marchSetup_steppedCloud
    using a d e by simp
qed

section \<open>Properties of the atmosphere functions\<close>

lemma fdiv_Some [simp]: "b \<noteq> 0 \<Longrightarrow> fdiv a b = Some (a / b)"
  by (simp add: fdiv_def)

lemma fdiv_None [simp]: "fdiv a 0 = None"
  by (simp add: fdiv_def)

lemma fsqrt_Some [simp]: "0 \<le> a \<Longrightarrow> fsqrt a = Some (sqrt a)"
  by (simp add: fsqrt_def)

lemma GetTextureCoordFromUnitRange_Some:
  "0 < n \<Longrightarrow>
   GetTextureCoordFromUnitRange x n = Some (0.5 / real_of_int n + x * (1 - 1 / real_of_int n))"
  by (simp add: GetTextureCoordFromUnitRange_def)

text \<open>
  Claim C8.  Below the floor of \<open>1e-5\<close> on the red channel of the combined scattering the
  extrapolated single Mie scattering is the zero vector.  From the floor on it is
  \<open>scattering.rgb * scattering.a / scattering.r * (rayleigh.r / mie.r) * (mie / rayleigh)\<close>,
  and the division by the red channel is defined: the function has an undefined result only
  when a divisor among the uniforms (a channel of the Rayleigh scattering coefficient, the
  red channel of the Mie scattering coefficient) is zero, never because of the sample.
\<close>

theorem GetExtrapolatedSingleMieScattering_guard:
  "(sr < 1 / 100000 \<longrightarrow> GetExtrapolatedSingleMieScattering P (sr, sg, sb, sa) = Some (0, 0, 0))
   \<and> (\<not> sr < 1 / 100000 \<and> u_rayleigh_scattering P = (Rr, Rg, Rb) \<and> u_mie_scattering P = (Mr, Mg, Mb)
        \<and> Rr \<noteq> 0 \<and> Rg \<noteq> 0 \<and> Rb \<noteq> 0 \<and> Mr \<noteq> 0 \<longrightarrow>
      GetExtrapolatedSingleMieScattering P (sr, sg, sb, sa)
        = Some (sr * sa / sr * (Rr / Mr) * (Mr / Rr),
                sg * sa / sr * (Rr / Mr) * (Mg / Rg),
                sb * sa / sr * (Rr / Mr) * (Mb / Rb)))
   \<and> (u_rayleigh_scattering P = (Rr, Rg, Rb) \<and> u_mie_scattering P = (Mr, Mg, Mb)
        \<and> GetExtrapolatedSingleMieScattering P (sr, sg, sb, sa) = None \<longrightarrow>
      Rr = 0 \<or> Rg = 0 \<or> Rb = 0 \<or> Mr = 0)"
  by (auto simp add: GetExtrapolatedSingleMieScattering_def fdiv_def mult.commute split: if_splits)

theorem GetExtrapolatedSingleMieScattering_guard_witness:
  "GetExtrapolatedSingleMieScattering smallAtmosphere (0, 1, 1, 1) = Some (0, 0, 0)
   \<and> GetExtrapolatedSingleMieScattering smallAtmosphere (1, 1, 1, 1) = Some (1, 1 / 2, 1 / 4)"
  using GetExtrapolatedSingleMieScattering_guard [of 0 smallAtmosphere 1 1 1 1 2 4 1 1 1]
    GetExtrapolatedSingleMieScattering_guard [of 1 smallAtmosphere 1 1 1 1 2 4 1 1 1]
  by (simp add: smallAtmosphere_def)

lemma sqrt_sq_diff:
  assumes "0 < b" and "b < (t::real)"
  shows "0 < t * t - b * b" and "t - b < sqrt (t * t - b * b)"
proof -
  have "b * b < t * t" using assms by (simp add: mult_strict_mono)
  then show "0 < t * t - b * b" by simp
  have "(t - b)\<^sup>2 < t * t - b * b"
  proof -
    have "t * t - b * b - (t - b)\<^sup>2 = 2 * b * (t - b)" by (simp add: power2_eq_square algebra_simps)
    moreover have "0 < 2 * b * (t - b)" using assms by simp
    ultimately show ?thesis by linarith
  qed
  then show "t - b < sqrt (t * t - b * b)" by (rule real_less_rsqrt)
qed

lemma DistanceToTop_from_bottom:
  assumes "0 < u_bottom_radius P" and "u_bottom_radius P < u_top_radius P"
  shows "m \<le> 1 \<Longrightarrow>
           u_top_radius P - u_bottom_radius P \<le> DistanceToTopAtmosphereBoundary P (u_bottom_radius P) m"
    and "m < 1 \<Longrightarrow>
           u_top_radius P - u_bottom_radius P < DistanceToTopAtmosphereBoundary P (u_bottom_radius P) m"
proof -
  define b where "b = u_bottom_radius P"
  define t where "t = u_top_radius P"
  define X where "X = b * b * (m * m - 1) + t * t"
  have bt: "0 < b" "b < t" using assms by (simp_all add: b_def t_def)
  have X0: "0 \<le> X"
  proof -
    have "X = b * b * (m * m) + (t * t - b * b)" by (simp add: X_def algebra_simps)
    moreover have "0 \<le> b * b * (m * m)" by simp
    moreover have "0 < t * t - b * b" using bt by (rule sqrt_sq_diff)
    ultimately show ?thesis by linarith
  qed
  have id: "X - (t - b + b * m)\<^sup>2 = 2 * b * (t - b) * (1 - m)"
    by (simp add: X_def power2_eq_square algebra_simps)
  have D: "DistanceToTopAtmosphereBoundary P (u_bottom_radius P) m = max (- b * m + sqrt X) 0"
    using X0
    by (simp add: DistanceToTopAtmosphereBoundary_def ClampDistance_def SafeSqrt_def Let_def
        b_def t_def X_def max_def)
  {
    assume "m \<le> 1"
    then have "0 \<le> 2 * b * (t - b) * (1 - m)" using bt by simp
    then have "(t - b + b * m)\<^sup>2 \<le> X" using id by linarith
    then have "t - b + b * m \<le> sqrt X" by (rule real_le_rsqrt)
    then show "u_top_radius P - u_bottom_radius P
        \<le> DistanceToTopAtmosphereBoundary P (u_bottom_radius P) m"
      unfolding D by (simp add: b_def t_def)
  }
  {
    assume "m < 1"
    then have "0 < 2 * b * (t - b) * (1 - m)" using bt by simp
    then have "(t - b + b * m)\<^sup>2 < X" using id by linarith
    then have "t - b + b * m < sqrt X" by (rule real_less_rsqrt)
    then show "u_top_radius P - u_bottom_radius P
        < DistanceToTopAtmosphereBoundary P (u_bottom_radius P) m"
      unfolding D by (simp add: b_def t_def)
  }
qed

text \<open>
  Claim C2.  In a valid atmosphere, for a sun zenith cosine that is at most 1 and a ray that
  intersects the ground, when the two bounds of the distance to the ground are equal
  (\<open>d_max == d_min\<close>, the viewer on the ground), no operation of
  \<open>GetScatteringTextureUvwzFromRMuMuSNu\<close> is undefined, and the coordinate \<open>u_mu\<close> is the one
  that the unit range input 0 gives: the degenerate quotient is replaced by 0.
\<close>

theorem GetScatteringTextureUvwz_degenerate:
  assumes "validAtmosphere P"
    and "mu_s \<le> 1"
    and "SafeSqrt (r * r - u_bottom_radius P * u_bottom_radius P) = r - u_bottom_radius P"
  shows "\<exists>c u_mu_s u_r.
           GetTextureCoordFromUnitRange 0 (SCATTERING_TEXTURE_MU_SIZE P div 2) = Some c
         \<and> GetScatteringTextureUvwzFromRMuMuSNu P r mu mu_s nu True
             = Some ((nu + 1) / 2, u_mu_s, 0.5 - 0.5 * c, u_r)"
proof -
  define b where "b = u_bottom_radius P"
  define t where "t = u_top_radius P"
  define H where "H = sqrt (t * t - b * b)"
  have bt: "0 < b" "b < t" using assms(1) by (simp_all add: validAtmosphere_def b_def t_def)
  have sizes: "0 < SCATTERING_TEXTURE_R_SIZE P" "0 < SCATTERING_TEXTURE_MU_SIZE P div 2"
    "0 < SCATTERING_TEXTURE_MU_S_SIZE P"
    using assms(1) by (simp_all add: validAtmosphere_def pos_imp_zdiv_pos_iff)
  have H: "0 < t * t - b * b" "t - b < H" unfolding H_def using bt by (rule sqrt_sq_diff)+
  have H0: "H \<noteq> 0" "H - (t - b) \<noteq> 0" using H(2) bt by simp_all
  define a where "a = (DistanceToTopAtmosphereBoundary P b mu_s - (t - b)) / (H - (t - b))"
  define A where "A = (DistanceToTopAtmosphereBoundary P b (u_mu_s_min P) - (t - b)) / (H - (t - b))"
  have "t - b \<le> DistanceToTopAtmosphereBoundary P b mu_s"
    using DistanceToTop_from_bottom(1) [of P mu_s] bt assms(2) by (simp add: b_def t_def)
  then have a0: "0 \<le> a" unfolding a_def using H(2) by simp
  then have a1: "1 + a \<noteq> 0" by simp
  have "t - b < DistanceToTopAtmosphereBoundary P b (u_mu_s_min P)"
    using DistanceToTop_from_bottom(2) [of P "u_mu_s_min P"] bt assms(1)
    by (simp add: b_def t_def validAtmosphere_def)
  then have "0 < A" unfolding A_def using H(2) by simp
  then have A0: "A \<noteq> 0" by simp
  have root: "fsqrt (t * t - b * b) = Some H" using H(1) by (simp add: H_def)
  have rho: "SafeSqrt (r * r - b * b) = r - b" using assms(3) by (simp add: b_def)
  note coord = GetTextureCoordFromUnitRange_Some
  show ?thesis
    unfolding GetScatteringTextureUvwzFromRMuMuSNu_def
    unfolding b_def [symmetric] t_def [symmetric]
    using root rho H0 a1 A0 sizes
    by (simp add: Let_def coord a_def [symmetric] A_def [symmetric])
qed

lemma validAtmosphere_small: "validAtmosphere smallAtmosphere"
  by (simp add: validAtmosphere_def smallAtmosphere_def)

theorem GetScatteringTextureUvwz_degenerate_witness:
  "validAtmosphere smallAtmosphere
   \<and> SafeSqrt (3 * 3 - u_bottom_radius smallAtmosphere * u_bottom_radius smallAtmosphere)
       = 3 - u_bottom_radius smallAtmosphere
   \<and> GetTextureCoordFromUnitRange 0 (SCATTERING_TEXTURE_MU_SIZE smallAtmosphere div 2)
       = Some (1 / 128)
   \<and> (\<exists>u_mu_s u_r. GetScatteringTextureUvwzFromRMuMuSNu smallAtmosphere 3 (- 1) 0 0 True
         = Some (1 / 2, u_mu_s, 127 / 256, u_r))"
proof -
  have h3: "SafeSqrt (3 * 3 - u_bottom_radius smallAtmosphere * u_bottom_radius smallAtmosphere)
       = 3 - u_bottom_radius smallAtmosphere"
    by (simp add: smallAtmosphere_def SafeSqrt_def)
  have c: "GetTextureCoordFromUnitRange 0 (SCATTERING_TEXTURE_MU_SIZE smallAtmosphere div 2)
       = Some (1 / 128)"
    by (simp add: GetTextureCoordFromUnitRange_Some smallAtmosphere_def)
  from GetScatteringTextureUvwz_degenerate [OF validAtmosphere_small _ h3, of 0 "- 1" 0]
  have "\<exists>u_mu_s u_r. GetScatteringTextureUvwzFromRMuMuSNu smallAtmosphere 3 (- 1) 0 0 True
         = Some (1 / 2, u_mu_s, 127 / 256, u_r)"
    unfolding c by auto
  with validAtmosphere_small h3 c show ?thesis by simp
qed














lemma TransmittanceToTop_small:
  "GetTransmittanceToTopAtmosphereBoundary smallAtmosphere halfTransmittance 5 0
     = Some (1 / 2, 1 / 2, 1 / 2)"
  by (simp add: GetTransmittanceToTopAtmosphereBoundary_def GetTransmittanceTextureUvFromRMu_def
      GetTextureCoordFromUnitRange_def DistanceToTopAtmosphereBoundary_def ClampDistance_def
      SafeSqrt_def smallAtmosphere_def halfTransmittance_def sqrt_16 Let_def)

lemma ScatteringUvwz_small:
  "GetScatteringTextureUvwzFromRMuMuSNu smallAtmosphere 5 0 0 0 False
     = Some (1 / 2, 1 / 64, 129 / 256, 63 / 64)"
  by (simp add: GetScatteringTextureUvwzFromRMuMuSNu_def GetTextureCoordFromUnitRange_def
      DistanceToTopAtmosphereBoundary_def ClampDistance_def
      SafeSqrt_def smallAtmosphere_def sqrt_16 Let_def)

lemma CombinedScattering_small:
  "GetCombinedScattering smallAtmosphere (u_scattering_texture smallAtmosphere)
      (u_single_mie_scattering_texture smallAtmosphere) 5 0 0 0 False
     = Some ((1, 1, 1), (1, 1 / 2, 1 / 4))"
  by (simp add: GetCombinedScattering_def ScatteringUvwz_small Let_def
        GetExtrapolatedSingleMieScattering_def)
     (simp add: smallAtmosphere_def)

lemma MiePhaseFunction_isotropic: "MiePhaseFunction 0 0 = Some (3 / (16 * pi))"
  by (simp add: MiePhaseFunction_def fpow_def)

lemma advanced_camera_on_top_boundary:
  fixes eye view_ray :: vec3
  defines "r \<equiv> length3 eye" and "rmu \<equiv> dot3 eye view_ray"
  assumes unit: "dot3 view_ray view_ray = 1"
    and hit: "0 \<le> rmu * rmu - r * r + u_top_radius P * u_top_radius P"
    and top: "0 \<le> u_top_radius P"
  shows "length3 (add3 eye (scale3 (- rmu - SafeSqrt (rmu * rmu - r * r + u_top_radius P * u_top_radius P))
           view_ray)) = u_top_radius P"
proof -
  define t where "t = u_top_radius P"
  define s where "s = SafeSqrt (rmu * rmu - r * r + t * t)"
  define d where "d = - rmu - s"
  obtain a b c where eye: "eye = (a, b, c)" by (cases eye) auto
  obtain x y z where ray: "view_ray = (x, y, z)" by (cases view_ray) auto
  have rr: "r * r = dot3 eye eye"
    unfolding r_def length3_def eye by (simp add: sum_nonneg)
  have ss: "s * s = rmu * rmu - r * r + t * t"
    using hit unfolding s_def SafeSqrt_def t_def by simp
  have "dot3 (add3 eye (scale3 d view_ray)) (add3 eye (scale3 d view_ray))
      = dot3 eye eye + 2 * d * rmu + d * d * dot3 view_ray view_ray"
    unfolding rmu_def eye ray by (simp add: algebra_simps)
  also have "\<dots> = r * r + 2 * d * rmu + d * d" by (simp add: rr unit)
  also have "\<dots> = r * r + (s * s - rmu * rmu)" unfolding d_def by (simp add: algebra_simps)
  also have "\<dots> = t * t" by (simp add: ss)
  finally have "length3 (add3 eye (scale3 d view_ray)) = sqrt (t * t)"
    by (simp add: length3_def)
  then show ?thesis using top by (simp add: d_def s_def t_def)
qed

lemma GetSkyRadiance_ray_points_away:
  assumes "length3 eye > u_top_radius P" and "0 \<le> dot3 eye view_ray"
  shows "GetSkyRadiance P tt st smt eye view_ray shadow_length sun_direction
           = Some ((0, 0, 0), (1, 1, 1))"
proof -
  have "\<not> 0 < - dot3 eye view_ray - SafeSqrt a" for a
  proof -
    have "0 \<le> SafeSqrt a" by (simp add: SafeSqrt_def)
    with assms(2) show ?thesis by linarith
  qed
  then show ?thesis using assms(1) by (simp add: GetSkyRadiance_def Let_def)
qed

text \<open>
  Claim C7 at a camera outside the atmosphere whose view ray passes the atmosphere by.  The
  top of the atmosphere has radius 5, the camera is at distance 10 from the centre, and the
  discriminant of the intersection with the top boundary is negative: the ray misses the
  boundary.  The safe square root turns the discriminant into 0, the distance to the boundary
  comes out as 6, and the function goes on from the point of the ray that is nearest to the
  centre as if it were on the boundary: it returns the transmittance of the texture and a
  radiance that is not zero, where zero radiance and unit transmittance are due.
\<close>

theorem GetSkyRadiance_ray_misses_atmosphere:
  "length3 (0, 0, 10) > u_top_radius smallAtmosphere
   \<and> (dot3 (0, 0, 10) (4 / 5, 0, - 3 / 5))\<^sup>2 - (length3 (0, 0, 10))\<^sup>2
        + (u_top_radius smallAtmosphere)\<^sup>2 < 0
   \<and> GetSkyRadiance smallAtmosphere halfTransmittance (\<lambda>uvw. (1, 1, 1, 1)) (\<lambda>uvw. (1, 1, 1, 1))
        (0, 0, 10) (4 / 5, 0, - 3 / 5) 0 (0, 1, 0)
       = Some ((3 / (8 * pi), 9 / (32 * pi), 15 / (64 * pi)), (1 / 2, 1 / 2, 1 / 2))"
proof -
  have len: "length3 (0, 0, 10) = 10" by (simp add: length3_def sqrt_100)
  have top: "u_top_radius smallAtmosphere = 5" by (simp add: smallAtmosphere_def)
  have ground: "\<not> RayIntersectsGround smallAtmosphere 5 0" by (simp add: RayIntersectsGround_def)
  have "GetSkyRadiance smallAtmosphere halfTransmittance (\<lambda>uvw. (1, 1, 1, 1)) (\<lambda>uvw. (1, 1, 1, 1))
        (0, 0, 10) (4 / 5, 0, - 3 / 5) 0 (0, 1, 0)
       = Some ((3 / (8 * pi), 9 / (32 * pi), 15 / (64 * pi)), (1 / 2, 1 / 2, 1 / 2))"
    unfolding GetSkyRadiance_def len top
    by (simp add: SafeSqrt_def Let_def ground TransmittanceToTop_small CombinedScattering_small
        MiePhaseFunction_isotropic RayleighPhaseFunction_def)
       (simp add: smallAtmosphere_def MiePhaseFunction_isotropic field_simps)
  then show ?thesis by (simp add: len top)
qed

section \<open>Properties of the cascaded shadow maps\<close>

lemma resizeShadows_eq:
  "resizeShadows v lights =
     (map (\<lambda>light. light\<lparr> shadow := (shadow light)\<lparr> mapSize := (v, v), shadowMap := None \<rparr> \<rparr>) lights,
      List.map_filter (\<lambda>light. shadowMap (shadow light)) lights)"
proof (induction lights)
  case Nil
  show ?case by (simp add: List.map_filter_simps)
next
  case (Cons light lights)
  show ?case
  proof (cases "shadowMap (shadow light)")
    case None
    then have "(shadow light)\<lparr> mapSize := (v, v) \<rparr> = (shadow light)\<lparr> mapSize := (v, v), shadowMap := None \<rparr>"
      by simp
    with None Cons show ?thesis by (simp add: List.map_filter_simps)
  next
    case (Some target)
    with Cons show ?thesis by (simp add: List.map_filter_simps)
  qed
qed

lemma mainLightOf_shadow:
  assumes "map shadow lights' = map shadow (cascadedLights dl)"
  shows "shadow (mainLightOf (dl\<lparr> cascadedLights := lights' \<rparr>)) = shadow (mainLightOf dl)"
proof -
  have len: "length lights' = length (cascadedLights dl)"
    using assms by (rule map_eq_imp_length_eq)
  have "shadow (lights' ! k) = shadow (cascadedLights dl ! k)" if "k < length (cascadedLights dl)" for k
    using that len nth_map [of k lights' shadow] nth_map [of k "cascadedLights dl" shadow] assms
    by simp
  then show ?thesis
    by (simp add: mainLightOf_def len split: option.splits)
qed

text \<open>
  Claim C9, with the flag left alone by the \<open>mapSize\<close> setter.  Setting \<open>mapSize\<close> to a value
  other than the one the getter returns sets the width and the height of the shadow map of
  every cascaded light to the value, calls \<open>dispose\<close> on every shadow map that is allocated, in
  the order of the lights, and sets the reference to \<open>null\<close>; it changes nothing else, and the
  flag \<open>needsUpdateFrusta\<close> stays as it was.  Setting \<open>cascadeCount\<close> to a value other than
  the number of cascaded lights hands the lights to \<open>setCount\<close>, sets the flag and changes
  nothing else; with a \<open>setCount\<close> that releases the shadow maps as the spec says, no cascaded
  light has a shadow map afterwards and \<open>dispose\<close> has been called on the shadow maps that were
  allocated.  A setter that is given the current value changes nothing.  This holds whether or
  not the main light is one of the cascaded lights.
\<close>

theorem setters_frame:
  "(v \<noteq> get_mapSize s \<longrightarrow>
      set_mapSize v s =
        s\<lparr> directionalLight := (directionalLight s)
              \<lparr> cascadedLights :=
                  map (\<lambda>light. light\<lparr> shadow := (shadow light)\<lparr> mapSize := (v, v), shadowMap := None \<rparr> \<rparr>)
                    (cascadedLights (directionalLight s)) \<rparr>,
            disposedMaps := disposedMaps s
              @ List.map_filter (\<lambda>light. shadowMap (shadow light)) (cascadedLights (directionalLight s)) \<rparr>)
   \<and> needsUpdateFrusta (set_mapSize v s) = needsUpdateFrusta s
   \<and> (v = get_mapSize s \<longrightarrow> set_mapSize v s = s)
   \<and> (n \<noteq> get_cascadeCount s \<longrightarrow>
        set_cascadeCount D n s =
          s\<lparr> directionalLight := fst (setCount D n (directionalLight s)),
              needsUpdateFrusta := True,
              disposedMaps := disposedMaps s @ snd (setCount D n (directionalLight s)) \<rparr>)
   \<and> (n \<noteq> get_cascadeCount s \<and> releasesShadowMaps D \<longrightarrow>
        list_all (\<lambda>light. shadowMap (shadow light) = None)
          (cascadedLights (directionalLight (set_cascadeCount D n s)))
      \<and> (\<exists>disposed. disposedMaps (set_cascadeCount D n s) = disposedMaps s @ disposed
            \<and> set disposed
                = set (List.map_filter (\<lambda>light. shadowMap (shadow light))
                         (cascadedLights (directionalLight s)))))
   \<and> (n = get_cascadeCount s \<longrightarrow> set_cascadeCount D n s = s)"
proof -
  have count: "n \<noteq> get_cascadeCount s \<Longrightarrow>
        set_cascadeCount D n s =
          s\<lparr> directionalLight := fst (setCount D n (directionalLight s)),
              needsUpdateFrusta := True,
              disposedMaps := disposedMaps s @ snd (setCount D n (directionalLight s)) \<rparr>"
    by (simp add: set_cascadeCount_def split_beta)
  have released: "list_all (\<lambda>light. shadowMap (shadow light) = None)
          (cascadedLights (directionalLight (set_cascadeCount D n s)))
      \<and> (\<exists>disposed. disposedMaps (set_cascadeCount D n s) = disposedMaps s @ disposed
            \<and> set disposed
                = set (List.map_filter (\<lambda>light. shadowMap (shadow light))
                         (cascadedLights (directionalLight s))))"
    if h: "n \<noteq> get_cascadeCount s \<and> releasesShadowMaps D"
  proof -
    obtain dl' disposed where sc: "setCount D n (directionalLight s) = (dl', disposed)"
      by (cases "setCount D n (directionalLight s)") auto
    from h have "releasesShadowMaps D" by simp
    then have "\<forall>n dl. case setCount D n dl of (dl', disposed) \<Rightarrow>
         list_all (\<lambda>light. shadowMap (shadow light) = None) (cascadedLights dl')
       \<and> set disposed = set (List.map_filter (\<lambda>light. shadowMap (shadow light)) (cascadedLights dl))"
      unfolding releasesShadowMaps_def .
    then have "case setCount D n (directionalLight s) of (dl', disposed) \<Rightarrow>
         list_all (\<lambda>light. shadowMap (shadow light) = None) (cascadedLights dl')
       \<and> set disposed = set (List.map_filter (\<lambda>light. shadowMap (shadow light))
                               (cascadedLights (directionalLight s)))"
      by (elim allE)
    then have r: "list_all (\<lambda>light. shadowMap (shadow light) = None) (cascadedLights dl')"
      "set disposed = set (List.map_filter (\<lambda>light. shadowMap (shadow light))
                               (cascadedLights (directionalLight s)))"
      unfolding sc by simp_all
    have c: "set_cascadeCount D n s =
          s\<lparr> directionalLight := dl', needsUpdateFrusta := True,
              disposedMaps := disposedMaps s @ disposed \<rparr>"
      using count h by (simp add: sc)
    show ?thesis unfolding c using r by simp
  qed
  show ?thesis
    using count released
    by (simp add: set_mapSize_def resizeShadows_eq) (simp add: set_cascadeCount_def)
qed

lemma radius_pyramid: "\<not> fade s \<Longrightarrow> getFrustumRadius s pyramid = Some (5 / 2)"
proof -
  assume nofade: "\<not> fade s"
  have "sqrt (57 / 4) \<le> 5" by (rule real_le_lsqrt) simp_all
  then have "max (sqrt 25) (sqrt (57 / 4)) = 5" by (simp add: sqrt_25 max_def)
  moreover have "distanceTo (- 3 / 2, - 2, - 3) (3 / 2, 2, - 3) = sqrt 25"
    by (simp add: distanceTo_def length3_def)
  moreover have "distanceTo (- 3 / 2, - 2, - 3) (1 / 2, 1 / 2, - 1) = sqrt (57 / 4)"
    by (simp add: distanceTo_def length3_def) 
  ultimately show ?thesis using nofade
    by (simp add: getFrustumRadius_def pyramid_def Let_def)
qed

lemma freshCsm_eq:
  "freshCsm tx =
     \<lparr> maxCascadeCount = 1, far = 100000, mode = practical, lambda = 1 / 2, margin = 200,
       fade = False, disableLastCascadeCutoff = False, bias = 0, normalBias = 0,
       needsUpdateFrusta = True,
       directionalLight =
         \<lparr> mainLight = plainLight, mainLightIndex = None, cascadedLights = [plainLight],
           direction = (0, 0, - 1) \<rparr>,
       materialStates = (), mainFrustum = pyramid, cascadedFrusta = [],
       splits = [], cascades = [], mainCamera = cameraAt (tx, 0, 0),
       disposedMaps = [] \<rparr>"
  by (simp add: freshCsm_def newCascadedShadowMaps_def standIns_def oneCascadeParams_def orDefault_def Let_def
      set_cascadeCount_def get_cascadeCount_def set_intensity_def get_intensity_def set_mapSize_def
      get_mapSize_def mainLightOf_def List.map_filter_simps)
     (simp add: plainLight_def)

lemma normalize3_down: "normalize3 (0, 0, - 1) = (0, 0, - 1)"
  by (simp add: normalize3_def length3_def)

lemma matrices_standIns:
  "direction (directionalLight s) = (0, 0, - 1) \<Longrightarrow> lightOrientation standIns s = identity4"
  "direction (directionalLight s) = (0, 0, - 1) \<Longrightarrow> mainCamera s = cameraAt (tx, 0, 0) \<Longrightarrow>
     cameraToLight standIns s = translation4 (tx, 0, 0)"
  by (simp_all add: lightOrientation_def cameraToLight_def standIns_def identity4_def cameraAt_def
      translation4_def rowTimes_def)

lemma lightSpaceCenter_pyramid:
  "lightSpaceCenter (translation4 (tx, 0, 0)) m pyramid = Some (tx, 0, - 1 + m)"
  by (simp add: lightSpaceCenter_def applyFrustum_def pyramid_def translation4_def Let_def)

lemma updateFrusta_fresh:
  "updateFrusta standIns (freshCsm tx) =
     Inr ((settledCsm tx 0 1)
            \<lparr> needsUpdateFrusta := True,
              directionalLight := (directionalLight (settledCsm tx 0 1))
                \<lparr> cascadedLights :=
                    [(fittedLight 0 1)\<lparr> position := Some (0, 1, 0), targetPosition := Some (0, 0, 0) \<rparr>] \<rparr> \<rparr>)"
  apply (simp add: updateFrusta_def updateCascades_def updateShadowBounds_def freshCsm_eq Let_def
          get_cascadeCount_def fitShadowCamera_def radius_pyramid)
  apply (simp add: standIns_def cameraAt_def splitAt_def settledCsm_def fittedLight_def plainLight_def
          fitShadowCamera_def radius_pyramid Let_def)
  done


lemma jsRound_0: "jsRound 0 = 0"
  by (simp add: jsRound_def)

lemma placeLight_pyramid:
  "placeLight identity4 (translation4 (tx, 0, 0)) (0, 0, - 1) m 5 pyramid
      ((fittedLight x z)\<lparr> position := p, targetPosition := q \<rparr>)
     = fittedLight (real_of_int (jsRound tx)) (m - 1)"
  by (simp add: placeLight_def lightSpaceCenter_pyramid snappedCenter_def snapToTexel_def Let_def)
     (simp add: fittedLight_def identity4_def jsRound_0)

lemma update_clean:
  "\<not> needsUpdateFrusta s \<Longrightarrow>
   update D s =
     (case placeLights (lightOrientation D s) (cameraToLight D s)
             (normalize3 (direction (directionalLight s))) (margin s) (get_mapSize s)
             (cascadedFrusta s) 0 (cascadedLights (directionalLight s)) of
        Inl e \<Rightarrow> Inl e
      | Inr lights \<Rightarrow> Inr (s\<lparr> directionalLight := (directionalLight s)\<lparr> cascadedLights := lights \<rparr> \<rparr>))"
  by (simp add: update_def)

lemma update_dirty:
  "needsUpdateFrusta s \<Longrightarrow> updateFrusta D s = Inr s1 \<Longrightarrow>
   update D s = update D (s1\<lparr> needsUpdateFrusta := False \<rparr>)"
  by (simp add: update_def)

lemma fittedLight_self:
  "(fittedLight x z)\<lparr> position := Some (x, 0, z), targetPosition := Some (x, 0, z - 1) \<rparr> = fittedLight x z"
  by (simp add: fittedLight_def)

lemma update_settled_general:
  assumes "s = (settledCsm tx 0 0)
            \<lparr> mainCamera := cameraAt (tx', 0, 0), margin := m,
              directionalLight := (directionalLight (settledCsm tx 0 0))
                \<lparr> cascadedLights := [(fittedLight x z)\<lparr> position := p, targetPosition := q \<rparr>] \<rparr> \<rparr>"
  shows "update standIns s = Inr ((settledCsm tx' (real_of_int (jsRound tx')) (m - 1))\<lparr> margin := m \<rparr>)"
proof -
  have flag: "\<not> needsUpdateFrusta s" by (simp add: assms settledCsm_def)
  have dir: "direction (directionalLight s) = (0, 0, - 1)" by (simp add: assms settledCsm_def)
  have cam: "mainCamera s = cameraAt (tx', 0, 0)" by (simp add: assms)
  have L: "lightOrientation standIns s = identity4" using dir by (rule matrices_standIns)
  have M: "cameraToLight standIns s = translation4 (tx', 0, 0)"
    using dir cam by (rule matrices_standIns)
  have size: "get_mapSize s = 5"
    by (simp add: assms get_mapSize_def mainLightOf_def settledCsm_def plainLight_def)
  have rest: "normalize3 (direction (directionalLight s)) = (0, 0, - 1)" "margin s = m"
    "cascadedFrusta s = [pyramid]"
    "cascadedLights (directionalLight s) = [(fittedLight x z)\<lparr> position := p, targetPosition := q \<rparr>]"
    by (simp_all add: assms settledCsm_def normalize3_down)
  show ?thesis
    unfolding update_clean [OF flag] L M size rest
    by (simp add: placeLight_pyramid) (simp add: assms settledCsm_def)
qed

lemma update_settled:
  "update standIns ((settledCsm tx x z)\<lparr> mainCamera := cameraAt (tx', 0, 0), margin := m \<rparr>)
     = Inr ((settledCsm tx' (real_of_int (jsRound tx')) (m - 1))\<lparr> margin := m \<rparr>)"
  by (rule update_settled_general [where x = x and z = z and p = "Some (x, 0, z)" and q = "Some (x, 0, z - 1)"])
     (simp add: settledCsm_def fittedLight_self)

lemma update_fresh:
  "update standIns (freshCsm tx) = Inr (settledCsm tx (real_of_int (jsRound tx)) 199)"
proof -
  have flag: "needsUpdateFrusta (freshCsm tx)" by (simp add: freshCsm_eq)
  have "update standIns (freshCsm tx)
      = Inr ((settledCsm tx (real_of_int (jsRound tx)) (200 - 1))\<lparr> margin := 200 \<rparr>)"
    unfolding update_dirty [OF flag updateFrusta_fresh]
    by (rule update_settled_general [where x = 0 and z = 1 and p = "Some (0, 1, 0)" and q = "Some (0, 0, 0)"])
       (simp add: settledCsm_def cameraAt_def)
  then show ?thesis by (simp add: settledCsm_def)
qed

lemma placeLight_shadow [simp]: "shadow (placeLight L M dir mg ms frustum light) = shadow light"
  by (simp add: placeLight_def Let_def)

lemma placeLight_position:
  "position (placeLight L M dir mg ms frustum light)
     = Option.bind (lightSpaceCenter M mg frustum)
         (\<lambda>c. Option.bind (snappedCenter ms (camera (shadow light)) c) (applyMatrix4 L))"
  by (simp add: placeLight_def Let_def)

lemma placeLights_props:
  "placeLights L M dir mg ms frusta i lights = Inr lights' \<Longrightarrow>
     length lights' = length lights
   \<and> map shadow lights' = map shadow lights
   \<and> (\<forall>j < i. lights' ! j = lights ! j)
   \<and> (\<forall>k < length frusta. i + k < length lights
         \<and> lights' ! (i + k) = placeLight L M dir mg ms (frusta ! k) (lights ! (i + k)))"
proof (induction frusta arbitrary: i lights)
  case Nil
  then show ?case by simp
next
  case (Cons frustum frusta)
  let ?lights = "lights[i := placeLight L M dir mg ms frustum (lights ! i)]"
  from Cons.prems have i: "i < length lights"
    by (simp split: if_splits)
  with Cons.prems have rec: "placeLights L M dir mg ms frusta (i + 1) ?lights = Inr lights'"
    by simp
  note IH = Cons.IH [OF rec]
  have len: "length lights' = length lights" using IH by simp
  have sh: "map shadow lights' = map shadow lights"
  proof -
    have "map shadow ?lights = map shadow lights"
      using i by (simp add: map_update list_update_same_conv)
    with IH show ?thesis by simp
  qed
  have before: "\<forall>j < i. lights' ! j = lights ! j"
  proof (intro allI impI)
    fix j assume "j < i"
    then have "lights' ! j = ?lights ! j" using IH by simp
    with \<open>j < i\<close> show "lights' ! j = lights ! j" by simp
  qed
  have here: "lights' ! i = placeLight L M dir mg ms frustum (lights ! i)"
  proof -
    have "lights' ! i = ?lights ! i" using IH by simp
    with i show ?thesis by simp
  qed
  have after: "\<forall>k < length (frustum # frusta). i + k < length lights
         \<and> lights' ! (i + k) = placeLight L M dir mg ms ((frustum # frusta) ! k) (lights ! (i + k))"
  proof (intro allI impI)
    fix k assume k: "k < length (frustum # frusta)"
    show "i + k < length lights
         \<and> lights' ! (i + k) = placeLight L M dir mg ms ((frustum # frusta) ! k) (lights ! (i + k))"
    proof (cases k)
      case 0
      with i here show ?thesis by simp
    next
      case (Suc k')
      with k have "k' < length frusta" by simp
      with IH have "i + 1 + k' < length ?lights
         \<and> lights' ! (i + 1 + k') = placeLight L M dir mg ms (frusta ! k') (?lights ! (i + 1 + k'))"
        by blast
      with Suc show ?thesis by simp
    qed
  qed
  from len sh before after show ?case by blast
qed

lemma update_steps:
  assumes "update D s = Inr s'"
  obtains s1 lights' where
    "if needsUpdateFrusta s then \<exists>s0. updateFrusta D s = Inr s0 \<and> s1 = s0\<lparr> needsUpdateFrusta := False \<rparr>
     else s1 = s"
    and "placeLights (lightOrientation D s1) (cameraToLight D s1)
            (normalize3 (direction (directionalLight s1))) (margin s1) (get_mapSize s1)
            (cascadedFrusta s1) 0 (cascadedLights (directionalLight s1)) = Inr lights'"
    and "s' = s1\<lparr> directionalLight := (directionalLight s1)\<lparr> cascadedLights := lights' \<rparr> \<rparr>"
    and "\<not> needsUpdateFrusta s1"
  using assms unfolding update_def
  by (auto split: if_splits sum.splits)

lemma update_frusta:
  assumes "update D s = Inr s'"
  shows "\<not> needsUpdateFrusta s'
       \<and> (if needsUpdateFrusta s then \<exists>s1. updateFrusta D s = Inr s1 \<and> frustaOf s' = frustaOf s1
          else frustaOf s' = frustaOf s)"
proof -
  from assms obtain s1 lights' where
    first: "if needsUpdateFrusta s then \<exists>s0. updateFrusta D s = Inr s0 \<and> s1 = s0\<lparr> needsUpdateFrusta := False \<rparr>
     else s1 = s"
    and place: "placeLights (lightOrientation D s1) (cameraToLight D s1)
            (normalize3 (direction (directionalLight s1))) (margin s1) (get_mapSize s1)
            (cascadedFrusta s1) 0 (cascadedLights (directionalLight s1)) = Inr lights'"
    and s': "s' = s1\<lparr> directionalLight := (directionalLight s1)\<lparr> cascadedLights := lights' \<rparr> \<rparr>"
    and clean: "\<not> needsUpdateFrusta s1"
    by (rule update_steps)
  have "map shadow lights' = map shadow (cascadedLights (directionalLight s1))"
    using placeLights_props [OF place] by simp
  then have "map camera (map shadow lights')
      = map camera (map shadow (cascadedLights (directionalLight s1)))"
    by simp
  then have "map (\<lambda>light. camera (shadow light)) lights'
      = map (\<lambda>light. camera (shadow light)) (cascadedLights (directionalLight s1))"
    by (simp add: comp_def)
  then have same: "frustaOf s' = frustaOf s1" by (simp add: frustaOf_def s')
  have flag: "\<not> needsUpdateFrusta s'" using clean by (simp add: s')
  show ?thesis
  proof (cases "needsUpdateFrusta s")
    case True
    with first obtain s0 where s0: "updateFrusta D s = Inr s0" "s1 = s0\<lparr> needsUpdateFrusta := False \<rparr>"
      by auto
    then have "frustaOf s1 = frustaOf s0" by (simp add: frustaOf_def)
    with True flag same s0 show ?thesis by simp
  next
    case False
    with first flag same show ?thesis by simp
  qed
qed

lemma constructor_flag: "needsUpdateFrusta (newCascadedShadowMaps D cam params)"
  by (simp add: newCascadedShadowMaps_def Let_def set_mapSize_def set_intensity_def set_cascadeCount_def
      split: prod.splits)

text \<open>
  Claim C4, as the code has it.  The flag \<open>needsUpdateFrusta\<close> is set when the instance is
  constructed and when \<open>cascadeCount\<close> is set to a different value.  The split mode, lambda,
  the margin, the far distance and the main camera are plain fields: assigning to them leaves
  the flag as it is, and it is for the caller to set it.  A call of \<open>update\<close> that returns
  leaves the flag cleared; it has recomputed the frusta (the splits, the cascades, the
  frusta, the bounds of the shadow cameras and the material states) exactly when the flag was
  set, and left them as they were otherwise.
\<close>

theorem needsUpdateFrusta_flag:
  "needsUpdateFrusta (newCascadedShadowMaps D cam params)
   \<and> (n \<noteq> get_cascadeCount s \<longrightarrow> needsUpdateFrusta (set_cascadeCount D n s))
   \<and> (n = get_cascadeCount s \<longrightarrow> set_cascadeCount D n s = s)
   \<and> needsUpdateFrusta (s\<lparr> mode := md \<rparr>) = needsUpdateFrusta s
   \<and> needsUpdateFrusta (s\<lparr> lambda := l \<rparr>) = needsUpdateFrusta s
   \<and> needsUpdateFrusta (s\<lparr> margin := mg \<rparr>) = needsUpdateFrusta s
   \<and> needsUpdateFrusta (s\<lparr> far := f \<rparr>) = needsUpdateFrusta s
   \<and> needsUpdateFrusta (s\<lparr> mainCamera := c \<rparr>) = needsUpdateFrusta s
   \<and> (update D s = Inr s' \<longrightarrow>
        \<not> needsUpdateFrusta s'
      \<and> (if needsUpdateFrusta s then \<exists>s1. updateFrusta D s = Inr s1 \<and> frustaOf s' = frustaOf s1
         else frustaOf s' = frustaOf s))"
  using update_frusta [of D s s'] constructor_flag [of D cam params]
  by (simp add: set_cascadeCount_def split_beta)

lemma settled_margin: "(settledCsm 0 0 199)\<lparr> mainCamera := cameraAt (0, 0, 0), margin := 300 \<rparr>
    = (settledCsm 0 0 199)\<lparr> margin := 300 \<rparr>"
  by (simp add: settledCsm_def)

text \<open>
  Changing the margin does not set the flag.  After construction and a first \<open>update\<close> the
  margin is 200 and the far plane of the shadow camera is at \<open>2 * radius + margin = 205\<close>.
  With the margin changed to 300 the flag is still cleared, and the next \<open>update\<close> moves the
  light with the new margin but leaves the far plane at 205, where a recomputation gives 305.
\<close>

theorem margin_change_counterexample:
  "update standIns (freshCsm 0) = Inr (settledCsm 0 0 199)
   \<and> margin (settledCsm 0 0 199) = 200
   \<and> \<not> needsUpdateFrusta ((settledCsm 0 0 199)\<lparr> margin := 300 \<rparr>)
   \<and> update standIns ((settledCsm 0 0 199)\<lparr> margin := 300 \<rparr>) = Inr ((settledCsm 0 0 299)\<lparr> margin := 300 \<rparr>)
   \<and> map (\<lambda>light. camFar (camera (shadow light)))
        (cascadedLights (directionalLight ((settledCsm 0 0 299)\<lparr> margin := 300 \<rparr>))) = [Some 205]
   \<and> camFar (camera (shadow (fitShadowCamera ((settledCsm 0 0 199)\<lparr> margin := 300 \<rparr>) pyramid
        (fittedLight 0 199)))) = Some 305"
proof -
  have a: "update standIns (freshCsm 0) = Inr (settledCsm 0 0 199)"
    using update_fresh [of 0] by (simp add: jsRound_0)
  have b: "update standIns ((settledCsm 0 0 199)\<lparr> margin := 300 \<rparr>)
      = Inr ((settledCsm 0 0 299)\<lparr> margin := 300 \<rparr>)"
    using update_settled [where tx = 0 and x = 0 and z = 199 and tx' = 0 and m = 300] by (simp add: jsRound_0 settled_margin)
  have c: "camFar (camera (shadow (fitShadowCamera ((settledCsm 0 0 199)\<lparr> margin := 300 \<rparr>) pyramid
        (fittedLight 0 199)))) = Some 305"
    by (simp add: fitShadowCamera_def radius_pyramid settledCsm_def Let_def)
  show ?thesis
    unfolding a b c by (simp add: settledCsm_def fittedLight_def)
qed

theorem needsUpdateFrusta_flag_witness:
  "update standIns (freshCsm 0) = Inr (settledCsm 0 0 199)
   \<and> needsUpdateFrusta (freshCsm 0)
   \<and> \<not> needsUpdateFrusta (settledCsm 0 0 199)
   \<and> 2 \<noteq> get_cascadeCount (settledCsm 0 0 199)
   \<and> needsUpdateFrusta (set_cascadeCount standIns 2 (settledCsm 0 0 199))"
proof -
  have a: "update standIns (freshCsm 0) = Inr (settledCsm 0 0 199)"
    using update_fresh [of 0] by (simp add: jsRound_0)
  have n: "2 \<noteq> get_cascadeCount (settledCsm 0 0 199)"
    by (simp add: get_cascadeCount_def settledCsm_def)
  have f: "needsUpdateFrusta (freshCsm 0)" by (simp add: freshCsm_eq)
  from needsUpdateFrusta_flag [of standIns "cameraAt (0, 0, 0)" oneCascadeParams 2 "settledCsm 0 0 199"]
    needsUpdateFrusta_flag [of standIns "cameraAt (0, 0, 0)" oneCascadeParams 2 "freshCsm 0" _ _ _ _ _ "settledCsm 0 0 199"]
    a n f
  show ?thesis by simp
qed

text \<open>
  Changing the map size does not set the flag.  The instance has been updated, its flag is
  cleared and the shadow map of its cascade is allocated; setting \<open>mapSize\<close> from 5 to 1024
  disposes of the shadow map and resizes it, and the flag is still cleared.
\<close>

theorem mapSize_change_counterexample:
  "get_mapSize allocatedCsm = 5
   \<and> \<not> needsUpdateFrusta allocatedCsm
   \<and> \<not> needsUpdateFrusta (set_mapSize 1024 allocatedCsm)
   \<and> disposedMaps (set_mapSize 1024 allocatedCsm) = [7]
   \<and> map (\<lambda>light. (mapSize (shadow light), shadowMap (shadow light)))
        (cascadedLights (directionalLight (set_mapSize 1024 allocatedCsm))) = [((1024, 1024), None)]"
  by (simp add: set_mapSize_def get_mapSize_def mainLightOf_def allocatedCsm_def settledCsm_def
      plainLight_def fittedLight_def Let_def)

lemma releasesShadowMaps_standIns: "releasesShadowMaps standIns"
  by (simp add: releasesShadowMaps_def standIns_def list_all_iff)

theorem setters_frame_witness:
  "1024 \<noteq> get_mapSize allocatedCsm
   \<and> 2 \<noteq> get_cascadeCount allocatedCsm
   \<and> releasesShadowMaps standIns
   \<and> disposedMaps (set_mapSize 1024 allocatedCsm) = [7]
   \<and> needsUpdateFrusta (set_cascadeCount standIns 2 allocatedCsm)
   \<and> list_all (\<lambda>light. shadowMap (shadow light) = None)
        (cascadedLights (directionalLight (set_cascadeCount standIns 2 allocatedCsm)))
   \<and> set (disposedMaps (set_cascadeCount standIns 2 allocatedCsm)) = {7}
   \<and> set_mapSize 5 allocatedCsm = allocatedCsm"
proof -
  have a: "1024 \<noteq> get_mapSize allocatedCsm" "5 = get_mapSize allocatedCsm"
    by (simp_all add: get_mapSize_def mainLightOf_def allocatedCsm_def settledCsm_def plainLight_def)
  have b: "2 \<noteq> get_cascadeCount allocatedCsm"
    by (simp add: get_cascadeCount_def allocatedCsm_def settledCsm_def)
  have c: "List.map_filter (\<lambda>light. shadowMap (shadow light))
      (cascadedLights (directionalLight allocatedCsm)) = [7]"
    by (simp add: allocatedCsm_def settledCsm_def List.map_filter_simps)
  have d: "disposedMaps allocatedCsm = []" by (simp add: allocatedCsm_def settledCsm_def)
  note r = releasesShadowMaps_standIns
  from setters_frame [of 1024 allocatedCsm 2 standIns] setters_frame [of 5 allocatedCsm 2 standIns]
    a b c d r
  show ?thesis by auto
qed

lemma snapToTexel_Some: "t \<noteq> 0 \<Longrightarrow> snapToTexel c t = Some (real_of_int (jsRound (c / t)) * t)"
  by (simp add: snapToTexel_def)

lemma snapToTexel_step:
  assumes "0 < t" and "\<bar>d\<bar> < t"
  shows "\<exists>a b. snapToTexel (c + d) t = Some a \<and> snapToTexel c t = Some b \<and> a - b \<in> {- t, 0, t}"
proof -
  define x where "x = c / t"
  define e where "e = d / t"
  have sum: "(c + d) / t = x + e" by (simp add: x_def e_def add_divide_distrib)
  have e: "- 1 < e" "e < 1" using assms by (simp_all add: e_def abs_less_iff field_simps)
  have A: "real_of_int \<lfloor>x + 1 / 2\<rfloor> \<le> x + 1 / 2" "x + 1 / 2 < real_of_int \<lfloor>x + 1 / 2\<rfloor> + 1"
    by linarith+
  have B: "real_of_int \<lfloor>x + e + 1 / 2\<rfloor> \<le> x + e + 1 / 2"
    "x + e + 1 / 2 < real_of_int \<lfloor>x + e + 1 / 2\<rfloor> + 1"
    by linarith+
  have "real_of_int \<lfloor>x + e + 1 / 2\<rfloor> < real_of_int \<lfloor>x + 1 / 2\<rfloor> + 2"
    using A B e by linarith
  then have "real_of_int \<lfloor>x + e + 1 / 2\<rfloor> < real_of_int (\<lfloor>x + 1 / 2\<rfloor> + 2)"
    by simp
  then have up: "\<lfloor>x + e + 1 / 2\<rfloor> \<le> \<lfloor>x + 1 / 2\<rfloor> + 1"
    unfolding of_int_less_iff by simp
  have "real_of_int \<lfloor>x + 1 / 2\<rfloor> - 2 < real_of_int \<lfloor>x + e + 1 / 2\<rfloor>"
    using A B e by linarith
  then have "real_of_int (\<lfloor>x + 1 / 2\<rfloor> - 2) < real_of_int \<lfloor>x + e + 1 / 2\<rfloor>"
    by simp
  then have down: "\<lfloor>x + 1 / 2\<rfloor> - 1 \<le> \<lfloor>x + e + 1 / 2\<rfloor>"
    unfolding of_int_less_iff by simp
  define k where "k = \<lfloor>x + e + 1 / 2\<rfloor> - \<lfloor>x + 1 / 2\<rfloor>"
  have k: "k = - 1 \<or> k = 0 \<or> k = 1" using up down unfolding k_def by linarith
  have t: "t \<noteq> 0" using assms(1) by simp
  have "real_of_int (jsRound ((c + d) / t)) * t - real_of_int (jsRound (c / t)) * t = real_of_int k * t"
    unfolding jsRound_def sum x_def [symmetric] k_def
    by (simp add: algebra_simps)
  with k have "real_of_int (jsRound ((c + d) / t)) * t - real_of_int (jsRound (c / t)) * t \<in> {- t, 0, t}"
    by auto
  then show ?thesis
    unfolding snapToTexel_Some [OF t] by blast
qed

lemma snappedCenter_texels:
  "snappedCenter ms cam (cx, cy, cz) =
     (case (Option.bind (camRight cam) (\<lambda>r. Option.bind (camLeft cam) (\<lambda>l. fdiv (r - l) ms)),
            Option.bind (camTop cam) (\<lambda>t. Option.bind (camBottom cam) (\<lambda>b. fdiv (t - b) ms))) of
        (Some tw, Some th) \<Rightarrow>
          if tw = 0 \<or> th = 0 then None
          else Some (real_of_int (jsRound (cx / tw)) * tw, real_of_int (jsRound (cy / th)) * th, cz)
      | _ \<Rightarrow> None)"
  by (cases "camRight cam"; cases "camLeft cam"; cases "camTop cam"; cases "camBottom cam")
     (auto simp add: snappedCenter_def snapToTexel_def fdiv_def)

lemma update_position:
  assumes "update D s = Inr s'" and "i < length (cascadedFrusta s')"
  shows "lightPosition s' i
           = Option.bind (cascadeCenter D s' i)
               (\<lambda>c. Option.bind
                      (snappedCenter (get_mapSize s')
                         (camera (shadow (cascadedLights (directionalLight s') ! i))) c)
                      (applyMatrix4 (lightOrientation D s')))"
proof -
  from assms(1) obtain s1 lights' where
    place: "placeLights (lightOrientation D s1) (cameraToLight D s1)
            (normalize3 (direction (directionalLight s1))) (margin s1) (get_mapSize s1)
            (cascadedFrusta s1) 0 (cascadedLights (directionalLight s1)) = Inr lights'"
    and s': "s' = s1\<lparr> directionalLight := (directionalLight s1)\<lparr> cascadedLights := lights' \<rparr> \<rparr>"
    by (rule update_steps)
  have i: "i < length (cascadedFrusta s1)" using assms(2) by (simp add: s')
  note P = placeLights_props [OF place]
  from P i have light: "lights' ! i = placeLight (lightOrientation D s1) (cameraToLight D s1)
            (normalize3 (direction (directionalLight s1))) (margin s1) (get_mapSize s1)
            (cascadedFrusta s1 ! i) (cascadedLights (directionalLight s1) ! i)"
    by force
  have size: "get_mapSize s' = get_mapSize s1"
    using P mainLightOf_shadow [of lights' "directionalLight s1"] by (simp add: s' get_mapSize_def)
  have same: "lightOrientation D s' = lightOrientation D s1" "cameraToLight D s' = cameraToLight D s1"
    "margin s' = margin s1" "cascadedFrusta s' = cascadedFrusta s1"
    by (simp_all add: s' lightOrientation_def cameraToLight_def)
  show ?thesis
    unfolding lightPosition_def cascadeCenter_def same size
    by (simp add: s' light placeLight_position)
qed

lemma update_keeps_shadow:
  assumes "update D s = Inr s'" and "\<not> needsUpdateFrusta s" and "i < length (cascadedFrusta s)"
  shows "shadow (cascadedLights (directionalLight s') ! i) = shadow (cascadedLights (directionalLight s) ! i)"
    and "lightOrientation D s' = lightOrientation D s"
    and "cameraToLight D s' = cameraToLight D s"
    and "get_mapSize s' = get_mapSize s"
    and "cascadedFrusta s' = cascadedFrusta s"
    and "margin s' = margin s"
proof -
  from assms(1) obtain s1 lights' where
    first: "if needsUpdateFrusta s then \<exists>s0. updateFrusta D s = Inr s0 \<and> s1 = s0\<lparr> needsUpdateFrusta := False \<rparr>
     else s1 = s"
    and place: "placeLights (lightOrientation D s1) (cameraToLight D s1)
            (normalize3 (direction (directionalLight s1))) (margin s1) (get_mapSize s1)
            (cascadedFrusta s1) 0 (cascadedLights (directionalLight s1)) = Inr lights'"
    and s': "s' = s1\<lparr> directionalLight := (directionalLight s1)\<lparr> cascadedLights := lights' \<rparr> \<rparr>"
    by (rule update_steps)
  have s1: "s1 = s" using first assms(2) by simp
  note P = placeLights_props [OF place]
  from P assms(3) have "lights' ! i = placeLight (lightOrientation D s1) (cameraToLight D s1)
            (normalize3 (direction (directionalLight s1))) (margin s1) (get_mapSize s1)
            (cascadedFrusta s1 ! i) (cascadedLights (directionalLight s1) ! i)"
    unfolding s1 by force
  then show "shadow (cascadedLights (directionalLight s') ! i) = shadow (cascadedLights (directionalLight s) ! i)"
    by (simp add: s' s1)
  show "get_mapSize s' = get_mapSize s"
    using P mainLightOf_shadow [of lights' "directionalLight s1"] by (simp add: s' s1 get_mapSize_def)
  show "lightOrientation D s' = lightOrientation D s" "cameraToLight D s' = cameraToLight D s"
    "cascadedFrusta s' = cascadedFrusta s" "margin s' = margin s"
    by (simp_all add: s' s1 lightOrientation_def cameraToLight_def)
qed

lemma update_snapped:
  assumes "update D s = Inr s'" and "i < length (cascadedFrusta s')"
  shows "lightPosition s' i =
        (case (cascadeCenter D s' i, texelWidth s' i, texelHeight s' i) of
           (Some (cx, cy, cz), Some tw, Some th) \<Rightarrow>
             if tw = 0 \<or> th = 0 then None
             else applyMatrix4 (lightOrientation D s')
                    (real_of_int (jsRound (cx / tw)) * tw, real_of_int (jsRound (cy / th)) * th, cz)
         | _ \<Rightarrow> None)"
proof (cases "cascadeCenter D s' i")
  case None
  then show ?thesis unfolding update_position [OF assms] by simp
next
  case (Some c)
  obtain cx cy cz where c: "c = (cx, cy, cz)" by (cases c) auto
  show ?thesis
    unfolding update_position [OF assms] Some c
    by (simp add: snappedCenter_texels texelWidth_def texelHeight_def Let_def
        split: option.splits)
qed

text \<open>
  Claim C5, with the stability for translations that stay within a texel cell.  After \<open>update\<close>
  the position of the light of every cascade is the image under the light orientation matrix of
  the centre of the bounding box of the cascade in light space, with \<open>x\<close> rounded to the nearest
  multiple of the texel width \<open>(right - left) / mapSize\<close>, \<open>y\<close> rounded to the nearest multiple
  of the texel height \<open>(top - bottom) / mapSize\<close> and \<open>z\<close> at the far side of the box plus the
  margin; \<open>mapSize\<close> is the value of the getter.  The position is not finite when a texel size
  is zero or not finite.  Of two calls of \<open>update\<close> one after the other, between which the
  main camera alone has changed, the second gives a cascade the light position that the first
  gave it when the texel sizes are defined and not zero and the two centres have the same \<open>z\<close>
  and round to the same multiples; and a translation of a centre by less than a texel changes
  the snapped coordinate by one texel or not at all.
\<close>

theorem update_snaps_to_texels:
  "(update D s = Inr s' \<and> i < length (cascadedFrusta s') \<longrightarrow>
      lightPosition s' i =
        (case (cascadeCenter D s' i, texelWidth s' i, texelHeight s' i) of
           (Some (cx, cy, cz), Some tw, Some th) \<Rightarrow>
             if tw = 0 \<or> th = 0 then None
             else applyMatrix4 (lightOrientation D s')
                    (real_of_int (jsRound (cx / tw)) * tw, real_of_int (jsRound (cy / th)) * th, cz)
         | _ \<Rightarrow> None))
   \<and> (update D s = Inr s' \<and> update D (s'\<lparr> mainCamera := c2 \<rparr>) = Inr s''
       \<and> i < length (cascadedFrusta s')
       \<and> texelWidth s' i = Some tw \<and> texelHeight s' i = Some th \<and> tw \<noteq> 0 \<and> th \<noteq> 0
       \<and> cascadeCenter D s' i = Some (cx, cy, cz) \<and> cascadeCenter D s'' i = Some (cx', cy', cz)
       \<and> jsRound (cx / tw) = jsRound (cx' / tw) \<and> jsRound (cy / th) = jsRound (cy' / th) \<longrightarrow>
       lightPosition s'' i = lightPosition s' i
     \<and> texelWidth s'' i = Some tw \<and> texelHeight s'' i = Some th)
   \<and> (0 < t \<and> \<bar>d\<bar> < t \<longrightarrow>
        (\<exists>a b. snapToTexel (c + d) t = Some a \<and> snapToTexel c t = Some b \<and> a - b \<in> {- t, 0, t}))"
proof (rule conjI; (rule conjI)?; rule impI)
  assume h: "update D s = Inr s' \<and> i < length (cascadedFrusta s')"
  then show "lightPosition s' i =
        (case (cascadeCenter D s' i, texelWidth s' i, texelHeight s' i) of
           (Some (cx, cy, cz), Some tw, Some th) \<Rightarrow>
             if tw = 0 \<or> th = 0 then None
             else applyMatrix4 (lightOrientation D s')
                    (real_of_int (jsRound (cx / tw)) * tw, real_of_int (jsRound (cy / th)) * th, cz)
         | _ \<Rightarrow> None)"
    using update_snapped [of D s s' i] by blast
next
  assume h: "update D s = Inr s' \<and> update D (s'\<lparr> mainCamera := c2 \<rparr>) = Inr s''
       \<and> i < length (cascadedFrusta s')
       \<and> texelWidth s' i = Some tw \<and> texelHeight s' i = Some th \<and> tw \<noteq> 0 \<and> th \<noteq> 0
       \<and> cascadeCenter D s' i = Some (cx, cy, cz) \<and> cascadeCenter D s'' i = Some (cx', cy', cz)
       \<and> jsRound (cx / tw) = jsRound (cx' / tw) \<and> jsRound (cy / th) = jsRound (cy' / th)"
  let ?s2 = "s'\<lparr> mainCamera := c2 \<rparr>"
  from h have u1: "update D s = Inr s'" and u2: "update D ?s2 = Inr s''"
    and i1: "i < length (cascadedFrusta s')" and i2: "i < length (cascadedFrusta ?s2)"
    by simp_all
  have clean: "\<not> needsUpdateFrusta ?s2" using update_frusta [OF u1] by simp
  note k = update_keeps_shadow [OF u2 clean i2]
  have i3: "i < length (cascadedFrusta s'')" using i2 k(5) by simp
  have L: "lightOrientation D s'' = lightOrientation D s'"
    unfolding k(2) by (simp add: lightOrientation_def)
  have tw: "texelWidth s'' i = texelWidth s' i" and th: "texelHeight s'' i = texelHeight s' i"
    unfolding texelWidth_def texelHeight_def k(1) k(4) by (simp_all add: get_mapSize_def)
  have p1: "lightPosition s' i = applyMatrix4 (lightOrientation D s')
              (real_of_int (jsRound (cx / tw)) * tw, real_of_int (jsRound (cy / th)) * th, cz)"
    unfolding update_snapped [OF u1 i1] using h by simp
  have p2: "lightPosition s'' i = applyMatrix4 (lightOrientation D s')
              (real_of_int (jsRound (cx' / tw)) * tw, real_of_int (jsRound (cy' / th)) * th, cz)"
    unfolding update_snapped [OF u2 i3] tw th L using h by simp
  from h have "jsRound (cx / tw) = jsRound (cx' / tw)" "jsRound (cy / th) = jsRound (cy' / th)"
    by simp_all
  then have "lightPosition s'' i = lightPosition s' i" unfolding p1 p2 by simp
  then show "lightPosition s'' i = lightPosition s' i
     \<and> texelWidth s'' i = Some tw \<and> texelHeight s'' i = Some th"
    using tw th h by simp
next
  assume "0 < t \<and> \<bar>d\<bar> < t"
  then show "\<exists>a b. snapToTexel (c + d) t = Some a \<and> snapToTexel c t = Some b \<and> a - b \<in> {- t, 0, t}"
    by (intro snapToTexel_step) simp_all
qed

lemma cascadeCenter_settled: "cascadeCenter standIns (settledCsm tx x z) 0 = Some (tx, 0, 199)"
proof -
  have M: "cameraToLight standIns (settledCsm tx x z) = translation4 (tx, 0, 0)"
    by (rule matrices_standIns) (simp_all add: settledCsm_def)
  have rest: "margin (settledCsm tx x z) = 200" "cascadedFrusta (settledCsm tx x z) ! 0 = pyramid"
    by (simp_all add: settledCsm_def)
  show ?thesis
    unfolding cascadeCenter_def M rest by (simp add: lightSpaceCenter_pyramid)
qed

lemma jsRound_fifths: "jsRound (1 / 5) = 0" "jsRound (2 / 5) = 0" "jsRound (3 / 5) = 1"
  by (simp_all add: jsRound_def)

lemma settled_moved:
  "(settledCsm tx x 199)\<lparr> mainCamera := cameraAt (tx', 0, 0), margin := 200 \<rparr>
    = (settledCsm tx x 199)\<lparr> mainCamera := cameraAt (tx', 0, 0) \<rparr>"
  by (simp add: settledCsm_def)

lemma texels_settled:
  "texelWidth (settledCsm tx x 199) 0 = Some 1" "texelHeight (settledCsm tx x 199) 0 = Some 1"
  by (simp_all add: texelWidth_def texelHeight_def get_mapSize_def mainLightOf_def settledCsm_def
      fittedLight_def plainLight_def)

lemma lightPosition_settled: "lightPosition (settledCsm tx x 199) 0 = Some (x, 0, 199)"
  by (simp add: lightPosition_def settledCsm_def fittedLight_def)

text \<open>
  A translation by less than a texel can move the light.  The texel width of the cascade is 1.
  With the camera at \<open>x = 2/5\<close> the centre of the cascade in light space is at \<open>x = 2/5\<close> and the
  light is placed at \<open>x = 0\<close>; with the camera moved by a fifth of a texel to \<open>x = 3/5\<close> the next
  \<open>update\<close> places the light at \<open>x = 1\<close>.
\<close>

theorem sub_texel_translation_counterexample:
  "update standIns (freshCsm (2 / 5)) = Inr (settledCsm (2 / 5) 0 199)
   \<and> update standIns ((settledCsm (2 / 5) 0 199)\<lparr> mainCamera := cameraAt (3 / 5, 0, 0) \<rparr>)
       = Inr (settledCsm (3 / 5) 1 199)
   \<and> texelWidth (settledCsm (2 / 5) 0 199) 0 = Some 1
   \<and> cascadeCenter standIns (settledCsm (2 / 5) 0 199) 0 = Some (2 / 5, 0, 199)
   \<and> cascadeCenter standIns (settledCsm (3 / 5) 1 199) 0 = Some (3 / 5, 0, 199)
   \<and> lightPosition (settledCsm (2 / 5) 0 199) 0 = Some (0, 0, 199)
   \<and> lightPosition (settledCsm (3 / 5) 1 199) 0 = Some (1, 0, 199)"
proof -
  have a: "update standIns (freshCsm (2 / 5)) = Inr (settledCsm (2 / 5) 0 199)"
    using update_fresh [of "2 / 5"] by (simp add: jsRound_fifths)
  have b: "update standIns ((settledCsm (2 / 5) 0 199)\<lparr> mainCamera := cameraAt (3 / 5, 0, 0) \<rparr>)
       = Inr (settledCsm (3 / 5) 1 199)"
    using update_settled [where tx = "2 / 5" and x = 0 and z = 199 and tx' = "3 / 5" and m = 200]
    by (simp add: jsRound_fifths settled_moved) (simp add: settledCsm_def)
  show ?thesis
    unfolding a b texels_settled cascadeCenter_settled lightPosition_settled by simp
qed

theorem update_snaps_to_texels_witness:
  "update standIns (freshCsm (2 / 5)) = Inr (settledCsm (2 / 5) 0 199)
   \<and> update standIns ((settledCsm (2 / 5) 0 199)\<lparr> mainCamera := cameraAt (1 / 5, 0, 0) \<rparr>)
       = Inr (settledCsm (1 / 5) 0 199)
   \<and> 0 < length (cascadedFrusta (settledCsm (2 / 5) 0 199))
   \<and> texelWidth (settledCsm (2 / 5) 0 199) 0 = Some 1
   \<and> texelHeight (settledCsm (2 / 5) 0 199) 0 = Some 1
   \<and> cascadeCenter standIns (settledCsm (2 / 5) 0 199) 0 = Some (2 / 5, 0, 199)
   \<and> cascadeCenter standIns (settledCsm (1 / 5) 0 199) 0 = Some (1 / 5, 0, 199)
   \<and> jsRound ((2 / 5) / 1) = jsRound ((1 / 5) / 1)
   \<and> lightPosition (settledCsm (2 / 5) 0 199) 0
       = applyMatrix4 (lightOrientation standIns (settledCsm (2 / 5) 0 199))
           (real_of_int (jsRound ((2 / 5) / 1)) * 1, real_of_int (jsRound (0 / 1)) * 1, 199)
   \<and> lightPosition (settledCsm (1 / 5) 0 199) 0 = lightPosition (settledCsm (2 / 5) 0 199) 0
   \<and> (\<exists>a b. snapToTexel (2 / 5 + 1 / 5) 1 = Some a \<and> snapToTexel (2 / 5) 1 = Some b
          \<and> a - b \<in> {- 1, 0, 1})"
proof -
  have a: "update standIns (freshCsm (2 / 5)) = Inr (settledCsm (2 / 5) 0 199)"
    using update_fresh [of "2 / 5"] by (simp add: jsRound_fifths)
  have b: "update standIns ((settledCsm (2 / 5) 0 199)\<lparr> mainCamera := cameraAt (1 / 5, 0, 0) \<rparr>)
       = Inr (settledCsm (1 / 5) 0 199)"
    using update_settled [where tx = "2 / 5" and x = 0 and z = 199 and tx' = "1 / 5" and m = 200]
    by (simp add: jsRound_fifths settled_moved) (simp add: settledCsm_def)
  have l: "0 < length (cascadedFrusta (settledCsm (2 / 5) 0 199))" by (simp add: settledCsm_def)
  note w = texels_settled [of "2 / 5" 0]
  note c1 = cascadeCenter_settled [of "2 / 5" 0 199]
  note c2 = cascadeCenter_settled [of "1 / 5" 0 199]
  have r: "jsRound ((2 / 5) / 1) = jsRound ((1 / 5) / 1)" "jsRound (0 / 1) = jsRound (0 / 1)"
    by (simp_all add: jsRound_fifths)
  note T = update_snaps_to_texels [of standIns "freshCsm (2 / 5)" "settledCsm (2 / 5) 0 199" 0
      "cameraAt (1 / 5, 0, 0)" "settledCsm (1 / 5) 0 199" 1 1 "2 / 5" 0 199 "1 / 5" 0 1 "1 / 5" "2 / 5"]
  have p: "lightPosition (settledCsm (2 / 5) 0 199) 0
       = applyMatrix4 (lightOrientation standIns (settledCsm (2 / 5) 0 199))
           (real_of_int (jsRound ((2 / 5) / 1)) * 1, real_of_int (jsRound (0 / 1)) * 1, 199)"
    using T [THEN conjunct1] a l unfolding w c1 by simp
  have q: "lightPosition (settledCsm (1 / 5) 0 199) 0 = lightPosition (settledCsm (2 / 5) 0 199) 0"
    using T [THEN conjunct2, THEN conjunct1] a b l w c1 c2 r by simp
  have e: "\<exists>a b. snapToTexel (2 / 5 + 1 / 5) 1 = Some a \<and> snapToTexel (2 / 5) 1 = Some b
          \<and> a - b \<in> {- 1, 0, 1}"
    using T [THEN conjunct2, THEN conjunct2] by simp
  from a b l w c1 c2 r(1) p q e show ?thesis by blast
qed


end
